theory Spec2Isabelle
  imports Main "HOL-Library.AList"
begin

section \<open>Python strings\<close>

text \<open>
  A Python \<^verbatim>\<open>str\<close> is a sequence of Unicode code points, so it is modelled as a list of
  natural numbers (\<^verbatim>\<open>ord\<close> of each character). The phone labels of this program are
  IPA symbols, most of them outside ASCII. An ASCII literal of the source is written
  \<open>ascii ''...''\<close>.
\<close>

type_synonym str = "nat list"

definition ascii :: "string \<Rightarrow> str" where
  "ascii s = map of_char s"

subsection \<open>Unicode data used by the string methods\<close>

text \<open>
  The tables below are the character data of Unicode 14.0.0 as CPython 3.11 ships them, for
  code points from 128 on (ASCII is written out in the functions themselves):
  \<^item> \<open>space_ranges\<close>: the characters \<^verbatim>\<open>str.isspace\<close> accepts, which \<^verbatim>\<open>str.strip()\<close> removes;
  \<^item> \<open>upper_special\<close>: code points whose full uppercase is more than one code point;
    this table and the next four are cut into blocks by code point, and \<open>t c\<close> is the
    block of table \<open>t\<close> that can hold \<open>c\<close>;
  \<^item> \<open>upper_runs\<close>, \<open>lower_runs\<close>: the one-to-one case mappings, as runs
    \<open>(lo, hi, step, tgt)\<close>: a code point \<open>c\<close> with \<open>lo \<le> c \<le> hi\<close> and \<open>step\<close> dividing
    \<open>c - lo\<close> maps to \<open>tgt + (c - lo)\<close>;
  \<^item> \<open>cased_ranges\<close> (cased and not case-ignorable) and \<open>case_ignorable_ranges\<close>: the
    two properties that decide the lowercase of capital sigma (U+03A3);
  \<^item> \<open>decimal_zeros\<close>: the digit zero of every run of ten decimal digits, which
    \<^verbatim>\<open>int()\<close> accepts.
\<close>

definition space_ranges :: "(nat \<times> nat) list" where
  "space_ranges =
    [(9, 13), (28, 32), (133, 133), (160, 160), (5760, 5760), (8192, 8202),
     (8232, 8233), (8239, 8239), (8287, 8287), (12288, 12288)]"

definition upper_special :: "nat \<Rightarrow> (nat \<times> nat list) list" where
  "upper_special c =
     (if c < 8065 then
       [(223, [83, 83]), (329, [700, 78]), (496, [74, 780]), (912, [921, 776, 769]),
        (944, [933, 776, 769]), (1415, [1333, 1362]), (7830, [72, 817]), (7831, [84, 776]),
        (7832, [87, 778]), (7833, [89, 778]), (7834, [65, 702]), (8016, [933, 787]),
        (8018, [933, 787, 768]), (8020, [933, 787, 769]), (8022, [933, 787, 834]), (8064, [7944, 921])]
      else if c < 8081 then
       [(8065, [7945, 921]), (8066, [7946, 921]), (8067, [7947, 921]), (8068, [7948, 921]),
        (8069, [7949, 921]), (8070, [7950, 921]), (8071, [7951, 921]), (8072, [7944, 921]),
        (8073, [7945, 921]), (8074, [7946, 921]), (8075, [7947, 921]), (8076, [7948, 921]),
        (8077, [7949, 921]), (8078, [7950, 921]), (8079, [7951, 921]), (8080, [7976, 921])]
      else if c < 8097 then
       [(8081, [7977, 921]), (8082, [7978, 921]), (8083, [7979, 921]), (8084, [7980, 921]),
        (8085, [7981, 921]), (8086, [7982, 921]), (8087, [7983, 921]), (8088, [7976, 921]),
        (8089, [7977, 921]), (8090, [7978, 921]), (8091, [7979, 921]), (8092, [7980, 921]),
        (8093, [7981, 921]), (8094, [7982, 921]), (8095, [7983, 921]), (8096, [8040, 921])]
      else if c < 8115 then
       [(8097, [8041, 921]), (8098, [8042, 921]), (8099, [8043, 921]), (8100, [8044, 921]),
        (8101, [8045, 921]), (8102, [8046, 921]), (8103, [8047, 921]), (8104, [8040, 921]),
        (8105, [8041, 921]), (8106, [8042, 921]), (8107, [8043, 921]), (8108, [8044, 921]),
        (8109, [8045, 921]), (8110, [8046, 921]), (8111, [8047, 921]), (8114, [8122, 921])]
      else if c < 8163 then
       [(8115, [913, 921]), (8116, [902, 921]), (8118, [913, 834]), (8119, [913, 834, 921]),
        (8124, [913, 921]), (8130, [8138, 921]), (8131, [919, 921]), (8132, [905, 921]),
        (8134, [919, 834]), (8135, [919, 834, 921]), (8140, [919, 921]), (8146, [921, 776, 768]),
        (8147, [921, 776, 769]), (8150, [921, 834]), (8151, [921, 776, 834]), (8162, [933, 776, 768])]
      else if c < 64262 then
       [(8163, [933, 776, 769]), (8164, [929, 787]), (8166, [933, 834]), (8167, [933, 776, 834]),
        (8178, [8186, 921]), (8179, [937, 921]), (8180, [911, 921]), (8182, [937, 834]),
        (8183, [937, 834, 921]), (8188, [937, 921]), (64256, [70, 70]), (64257, [70, 73]),
        (64258, [70, 76]), (64259, [70, 70, 73]), (64260, [70, 70, 76]), (64261, [83, 84])]
      else
       [(64262, [83, 84]), (64275, [1348, 1350]), (64276, [1348, 1333]), (64277, [1348, 1339]),
        (64278, [1358, 1350]), (64279, [1348, 1341])])"

definition upper_runs :: "nat \<Rightarrow> (nat \<times> nat \<times> nat \<times> nat) list" where
  "upper_runs c =
     (if c < 405 then
       [(181, 181, 1, 924), (224, 246, 1, 192), (248, 254, 1, 216), (255, 255, 1, 376),
        (257, 303, 2, 256), (305, 305, 1, 73), (307, 311, 2, 306), (314, 328, 2, 313),
        (331, 375, 2, 330), (378, 382, 2, 377), (383, 383, 1, 83), (384, 384, 1, 579),
        (387, 389, 2, 386), (392, 392, 1, 391), (396, 396, 1, 395), (402, 402, 1, 401)]
      else if c < 459 then
       [(405, 405, 1, 502), (409, 409, 1, 408), (410, 410, 1, 573), (414, 414, 1, 544),
        (417, 421, 2, 416), (424, 424, 1, 423), (429, 429, 1, 428), (432, 432, 1, 431),
        (436, 438, 2, 435), (441, 441, 1, 440), (445, 445, 1, 444), (447, 447, 1, 503),
        (453, 453, 1, 452), (454, 454, 1, 452), (456, 456, 1, 455), (457, 457, 1, 455)]
      else if c < 594 then
       [(459, 459, 1, 458), (460, 460, 1, 458), (462, 476, 2, 461), (477, 477, 1, 398),
        (479, 495, 2, 478), (498, 498, 1, 497), (499, 499, 1, 497), (501, 501, 1, 500),
        (505, 543, 2, 504), (547, 563, 2, 546), (572, 572, 1, 571), (575, 576, 1, 11390),
        (578, 578, 1, 577), (583, 591, 2, 582), (592, 592, 1, 11375), (593, 593, 1, 11373)]
      else if c < 620 then
       [(594, 594, 1, 11376), (595, 595, 1, 385), (596, 596, 1, 390), (598, 599, 1, 393),
        (601, 601, 1, 399), (603, 603, 1, 400), (604, 604, 1, 42923), (608, 608, 1, 403),
        (609, 609, 1, 42924), (611, 611, 1, 404), (613, 613, 1, 42893), (614, 614, 1, 42922),
        (616, 616, 1, 407), (617, 617, 1, 406), (618, 618, 1, 42926), (619, 619, 1, 11362)]
      else if c < 670 then
       [(620, 620, 1, 42925), (623, 623, 1, 412), (625, 625, 1, 11374), (626, 626, 1, 413),
        (629, 629, 1, 415), (637, 637, 1, 11364), (640, 640, 1, 422), (642, 642, 1, 42949),
        (643, 643, 1, 425), (647, 647, 1, 42929), (648, 648, 1, 430), (649, 649, 1, 580),
        (650, 651, 1, 433), (652, 652, 1, 581), (658, 658, 1, 439), (669, 669, 1, 42930)]
      else if c < 983 then
       [(670, 670, 1, 42928), (837, 837, 1, 921), (881, 883, 2, 880), (887, 887, 1, 886),
        (891, 893, 1, 1021), (940, 940, 1, 902), (941, 943, 1, 904), (945, 961, 1, 913),
        (962, 962, 1, 931), (963, 971, 1, 931), (972, 972, 1, 908), (973, 974, 1, 910),
        (976, 976, 1, 914), (977, 977, 1, 920), (981, 981, 1, 934), (982, 982, 1, 928)]
      else if c < 1377 then
       [(983, 983, 1, 975), (985, 1007, 2, 984), (1008, 1008, 1, 922), (1009, 1009, 1, 929),
        (1010, 1010, 1, 1017), (1011, 1011, 1, 895), (1013, 1013, 1, 917), (1016, 1016, 1, 1015),
        (1019, 1019, 1, 1018), (1072, 1103, 1, 1040), (1104, 1119, 1, 1024), (1121, 1153, 2, 1120),
        (1163, 1215, 2, 1162), (1218, 1230, 2, 1217), (1231, 1231, 1, 1216), (1233, 1327, 2, 1232)]
      else if c < 7835 then
       [(1377, 1414, 1, 1329), (4304, 4346, 1, 7312), (4349, 4351, 1, 7357), (5112, 5117, 1, 5104),
        (7296, 7296, 1, 1042), (7297, 7297, 1, 1044), (7298, 7298, 1, 1054), (7299, 7300, 1, 1057),
        (7301, 7301, 1, 1058), (7302, 7302, 1, 1066), (7303, 7303, 1, 1122), (7304, 7304, 1, 42570),
        (7545, 7545, 1, 42877), (7549, 7549, 1, 11363), (7566, 7566, 1, 42950), (7681, 7829, 2, 7680)]
      else if c < 8126 then
       [(7835, 7835, 1, 7776), (7841, 7935, 2, 7840), (7936, 7943, 1, 7944), (7952, 7957, 1, 7960),
        (7968, 7975, 1, 7976), (7984, 7991, 1, 7992), (8000, 8005, 1, 8008), (8017, 8023, 2, 8025),
        (8032, 8039, 1, 8040), (8048, 8049, 1, 8122), (8050, 8053, 1, 8136), (8054, 8055, 1, 8154),
        (8056, 8057, 1, 8184), (8058, 8059, 1, 8170), (8060, 8061, 1, 8186), (8112, 8113, 1, 8120)]
      else if c < 11500 then
       [(8126, 8126, 1, 921), (8144, 8145, 1, 8152), (8160, 8161, 1, 8168), (8165, 8165, 1, 8172),
        (8526, 8526, 1, 8498), (8560, 8575, 1, 8544), (8580, 8580, 1, 8579), (9424, 9449, 1, 9398),
        (11312, 11359, 1, 11264), (11361, 11361, 1, 11360), (11365, 11365, 1, 570), (11366, 11366, 1, 574),
        (11368, 11372, 2, 11367), (11379, 11379, 1, 11378), (11382, 11382, 1, 11381), (11393, 11491, 2, 11392)]
      else if c < 42952 then
       [(11500, 11502, 2, 11499), (11507, 11507, 1, 11506), (11520, 11557, 1, 4256), (11559, 11559, 1, 4295),
        (11565, 11565, 1, 4301), (42561, 42605, 2, 42560), (42625, 42651, 2, 42624), (42787, 42799, 2, 42786),
        (42803, 42863, 2, 42802), (42874, 42876, 2, 42873), (42879, 42887, 2, 42878), (42892, 42892, 1, 42891),
        (42897, 42899, 2, 42896), (42900, 42900, 1, 42948), (42903, 42921, 2, 42902), (42933, 42947, 2, 42932)]
      else if c < 93792 then
       [(42952, 42954, 2, 42951), (42961, 42961, 1, 42960), (42967, 42969, 2, 42966), (42998, 42998, 1, 42997),
        (43859, 43859, 1, 42931), (43888, 43967, 1, 5024), (65345, 65370, 1, 65313), (66600, 66639, 1, 66560),
        (66776, 66811, 1, 66736), (66967, 67003, 2, 66928), (66968, 66976, 2, 66929), (66980, 66992, 2, 66941),
        (66996, 67000, 2, 66957), (67004, 67004, 1, 66965), (68800, 68850, 1, 68736), (71872, 71903, 1, 71840)]
      else
       [(93792, 93823, 1, 93760), (125218, 125251, 1, 125184)])"

definition lower_runs :: "nat \<Rightarrow> (nat \<times> nat \<times> nat \<times> nat) list" where
  "lower_runs c =
     (if c < 400 then
       [(192, 214, 1, 224), (216, 222, 1, 248), (256, 302, 2, 257), (306, 310, 2, 307),
        (313, 327, 2, 314), (330, 374, 2, 331), (376, 376, 1, 255), (377, 381, 2, 378),
        (385, 385, 1, 595), (386, 388, 2, 387), (390, 390, 1, 596), (391, 391, 1, 392),
        (393, 394, 1, 598), (395, 395, 1, 396), (398, 398, 1, 477), (399, 399, 1, 601)]
      else if c < 431 then
       [(400, 400, 1, 603), (401, 401, 1, 402), (403, 403, 1, 608), (404, 404, 1, 611),
        (406, 406, 1, 617), (407, 407, 1, 616), (408, 408, 1, 409), (412, 412, 1, 623),
        (413, 413, 1, 626), (415, 415, 1, 629), (416, 420, 2, 417), (422, 422, 1, 640),
        (423, 423, 1, 424), (425, 425, 1, 643), (428, 428, 1, 429), (430, 430, 1, 648)]
      else if c < 503 then
       [(431, 431, 1, 432), (433, 434, 1, 650), (435, 437, 2, 436), (439, 439, 1, 658),
        (440, 440, 1, 441), (444, 444, 1, 445), (452, 452, 1, 454), (453, 453, 1, 454),
        (455, 455, 1, 457), (456, 456, 1, 457), (458, 458, 1, 460), (459, 475, 2, 460),
        (478, 494, 2, 479), (497, 497, 1, 499), (498, 500, 2, 499), (502, 502, 1, 405)]
      else if c < 902 then
       [(503, 503, 1, 447), (504, 542, 2, 505), (544, 544, 1, 414), (546, 562, 2, 547),
        (570, 570, 1, 11365), (571, 571, 1, 572), (573, 573, 1, 410), (574, 574, 1, 11366),
        (577, 577, 1, 578), (579, 579, 1, 384), (580, 580, 1, 649), (581, 581, 1, 652),
        (582, 590, 2, 583), (880, 882, 2, 881), (886, 886, 1, 887), (895, 895, 1, 1011)]
      else if c < 1162 then
       [(902, 902, 1, 940), (904, 906, 1, 941), (908, 908, 1, 972), (910, 911, 1, 973),
        (913, 929, 1, 945), (931, 939, 1, 963), (975, 975, 1, 983), (984, 1006, 2, 985),
        (1012, 1012, 1, 952), (1015, 1015, 1, 1016), (1017, 1017, 1, 1010), (1018, 1018, 1, 1019),
        (1021, 1023, 1, 891), (1024, 1039, 1, 1104), (1040, 1071, 1, 1072), (1120, 1152, 2, 1121)]
      else if c < 7960 then
       [(1162, 1214, 2, 1163), (1216, 1216, 1, 1231), (1217, 1229, 2, 1218), (1232, 1326, 2, 1233),
        (1329, 1366, 1, 1377), (4256, 4293, 1, 11520), (4295, 4295, 1, 11559), (4301, 4301, 1, 11565),
        (5024, 5103, 1, 43888), (5104, 5109, 1, 5112), (7312, 7354, 1, 4304), (7357, 7359, 1, 4349),
        (7680, 7828, 2, 7681), (7838, 7838, 1, 223), (7840, 7934, 2, 7841), (7944, 7951, 1, 7936)]
      else if c < 8168 then
       [(7960, 7965, 1, 7952), (7976, 7983, 1, 7968), (7992, 7999, 1, 7984), (8008, 8013, 1, 8000),
        (8025, 8031, 2, 8017), (8040, 8047, 1, 8032), (8072, 8079, 1, 8064), (8088, 8095, 1, 8080),
        (8104, 8111, 1, 8096), (8120, 8121, 1, 8112), (8122, 8123, 1, 8048), (8124, 8124, 1, 8115),
        (8136, 8139, 1, 8050), (8140, 8140, 1, 8131), (8152, 8153, 1, 8144), (8154, 8155, 1, 8054)]
      else if c < 11363 then
       [(8168, 8169, 1, 8160), (8170, 8171, 1, 8058), (8172, 8172, 1, 8165), (8184, 8185, 1, 8056),
        (8186, 8187, 1, 8060), (8188, 8188, 1, 8179), (8486, 8486, 1, 969), (8490, 8490, 1, 107),
        (8491, 8491, 1, 229), (8498, 8498, 1, 8526), (8544, 8559, 1, 8560), (8579, 8579, 1, 8580),
        (9398, 9423, 1, 9424), (11264, 11311, 1, 11312), (11360, 11360, 1, 11361), (11362, 11362, 1, 619)]
      else if c < 42802 then
       [(11363, 11363, 1, 7549), (11364, 11364, 1, 637), (11367, 11371, 2, 11368), (11373, 11373, 1, 593),
        (11374, 11374, 1, 625), (11375, 11375, 1, 592), (11376, 11376, 1, 594), (11378, 11378, 1, 11379),
        (11381, 11381, 1, 11382), (11390, 11391, 1, 575), (11392, 11490, 2, 11393), (11499, 11501, 2, 11500),
        (11506, 11506, 1, 11507), (42560, 42604, 2, 42561), (42624, 42650, 2, 42625), (42786, 42798, 2, 42787)]
      else if c < 42931 then
       [(42802, 42862, 2, 42803), (42873, 42875, 2, 42874), (42877, 42877, 1, 7545), (42878, 42886, 2, 42879),
        (42891, 42891, 1, 42892), (42893, 42893, 1, 613), (42896, 42898, 2, 42897), (42902, 42920, 2, 42903),
        (42922, 42922, 1, 614), (42923, 42923, 1, 604), (42924, 42924, 1, 609), (42925, 42925, 1, 620),
        (42926, 42926, 1, 618), (42928, 42928, 1, 670), (42929, 42929, 1, 647), (42930, 42930, 1, 669)]
      else if c < 66965 then
       [(42931, 42931, 1, 43859), (42932, 42946, 2, 42933), (42948, 42948, 1, 42900), (42949, 42949, 1, 642),
        (42950, 42950, 1, 7566), (42951, 42953, 2, 42952), (42960, 42960, 1, 42961), (42966, 42968, 2, 42967),
        (42997, 42997, 1, 42998), (65313, 65338, 1, 65345), (66560, 66599, 1, 66600), (66736, 66771, 1, 66776),
        (66928, 66964, 2, 66967), (66929, 66937, 2, 66968), (66941, 66953, 2, 66980), (66957, 66961, 2, 66996)]
      else
       [(66965, 66965, 1, 67004), (68736, 68786, 1, 68800), (71840, 71871, 1, 71872), (93760, 93791, 1, 93792),
        (125184, 125217, 1, 125218)])"

definition cased_ranges :: "nat \<Rightarrow> (nat \<times> nat) list" where
  "cased_ranges c =
     (if c < 904 then
       [(65, 90), (97, 122), (170, 170), (181, 181), (186, 186), (192, 214),
        (216, 246), (248, 442), (444, 447), (452, 659), (661, 687), (880, 883),
        (886, 887), (891, 893), (895, 895), (902, 902)]
      else if c < 7312 then
       [(904, 906), (908, 908), (910, 929), (931, 1013), (1015, 1153), (1162, 1327),
        (1329, 1366), (1376, 1416), (4256, 4293), (4295, 4295), (4301, 4301), (4304, 4346),
        (4349, 4351), (5024, 5109), (5112, 5117), (7296, 7304)]
      else if c < 8126 then
       [(7312, 7354), (7357, 7359), (7424, 7467), (7531, 7543), (7545, 7578), (7680, 7957),
        (7960, 7965), (7968, 8005), (8008, 8013), (8016, 8023), (8025, 8025), (8027, 8027),
        (8029, 8029), (8031, 8061), (8064, 8116), (8118, 8124)]
      else if c < 8490 then
       [(8126, 8126), (8130, 8132), (8134, 8140), (8144, 8147), (8150, 8155), (8160, 8172),
        (8178, 8180), (8182, 8188), (8450, 8450), (8455, 8455), (8458, 8467), (8469, 8469),
        (8473, 8477), (8484, 8484), (8486, 8486), (8488, 8488)]
      else if c < 42560 then
       [(8490, 8493), (8495, 8500), (8505, 8505), (8508, 8511), (8517, 8521), (8526, 8526),
        (8544, 8575), (8579, 8580), (9398, 9449), (11264, 11387), (11390, 11492), (11499, 11502),
        (11506, 11507), (11520, 11557), (11559, 11559), (11565, 11565)]
      else if c < 65313 then
       [(42560, 42605), (42624, 42651), (42786, 42863), (42865, 42887), (42891, 42894), (42896, 42954),
        (42960, 42961), (42963, 42963), (42965, 42969), (42997, 42998), (43002, 43002), (43824, 43866),
        (43872, 43880), (43888, 43967), (64256, 64262), (64275, 64279)]
      else if c < 93760 then
       [(65313, 65338), (65345, 65370), (66560, 66639), (66736, 66771), (66776, 66811), (66928, 66938),
        (66940, 66954), (66956, 66962), (66964, 66965), (66967, 66977), (66979, 66993), (66995, 67001),
        (67003, 67004), (68736, 68786), (68800, 68850), (71840, 71903)]
      else if c < 120128 then
       [(93760, 93823), (119808, 119892), (119894, 119964), (119966, 119967), (119970, 119970), (119973, 119974),
        (119977, 119980), (119982, 119993), (119995, 119995), (119997, 120003), (120005, 120069), (120071, 120074),
        (120077, 120084), (120086, 120092), (120094, 120121), (120123, 120126)]
      else if c < 122635 then
       [(120128, 120132), (120134, 120134), (120138, 120144), (120146, 120485), (120488, 120512), (120514, 120538),
        (120540, 120570), (120572, 120596), (120598, 120628), (120630, 120654), (120656, 120686), (120688, 120712),
        (120714, 120744), (120746, 120770), (120772, 120779), (122624, 122633)]
      else
       [(122635, 122654), (125184, 125251), (127280, 127305), (127312, 127337), (127344, 127369)])"

definition case_ignorable_ranges :: "nat \<Rightarrow> (nat \<times> nat) list" where
  "case_ignorable_ranges c =
     (if c < 1536 then
       [(39, 39), (46, 46), (58, 58), (94, 94), (96, 96), (168, 168),
        (173, 173), (175, 175), (180, 180), (183, 184), (688, 879), (884, 885),
        (890, 890), (900, 901), (903, 903), (1155, 1161), (1369, 1369), (1375, 1375),
        (1425, 1469), (1471, 1471), (1473, 1474), (1476, 1477), (1479, 1479), (1524, 1524)]
      else if c < 2369 then
       [(1536, 1541), (1552, 1562), (1564, 1564), (1600, 1600), (1611, 1631), (1648, 1648),
        (1750, 1757), (1759, 1768), (1770, 1773), (1807, 1807), (1809, 1809), (1840, 1866),
        (1958, 1968), (2027, 2037), (2042, 2042), (2045, 2045), (2070, 2093), (2137, 2139),
        (2184, 2184), (2192, 2193), (2200, 2207), (2249, 2306), (2362, 2362), (2364, 2364)]
      else if c < 2786 then
       [(2369, 2376), (2381, 2381), (2385, 2391), (2402, 2403), (2417, 2417), (2433, 2433),
        (2492, 2492), (2497, 2500), (2509, 2509), (2530, 2531), (2558, 2558), (2561, 2562),
        (2620, 2620), (2625, 2626), (2631, 2632), (2635, 2637), (2641, 2641), (2672, 2673),
        (2677, 2677), (2689, 2690), (2748, 2748), (2753, 2757), (2759, 2760), (2765, 2765)]
      else if c < 3276 then
       [(2786, 2787), (2810, 2815), (2817, 2817), (2876, 2876), (2879, 2879), (2881, 2884),
        (2893, 2893), (2901, 2902), (2914, 2915), (2946, 2946), (3008, 3008), (3021, 3021),
        (3072, 3072), (3076, 3076), (3132, 3132), (3134, 3136), (3142, 3144), (3146, 3149),
        (3157, 3158), (3170, 3171), (3201, 3201), (3260, 3260), (3263, 3263), (3270, 3270)]
      else if c < 3974 then
       [(3276, 3277), (3298, 3299), (3328, 3329), (3387, 3388), (3393, 3396), (3405, 3405),
        (3426, 3427), (3457, 3457), (3530, 3530), (3538, 3540), (3542, 3542), (3633, 3633),
        (3636, 3642), (3654, 3662), (3761, 3761), (3764, 3772), (3782, 3782), (3784, 3789),
        (3864, 3865), (3893, 3893), (3895, 3895), (3897, 3897), (3953, 3966), (3968, 3972)]
      else if c < 6089 then
       [(3974, 3975), (3981, 3991), (3993, 4028), (4038, 4038), (4141, 4144), (4146, 4151),
        (4153, 4154), (4157, 4158), (4184, 4185), (4190, 4192), (4209, 4212), (4226, 4226),
        (4229, 4230), (4237, 4237), (4253, 4253), (4348, 4348), (4957, 4959), (5906, 5908),
        (5938, 5939), (5970, 5971), (6002, 6003), (6068, 6069), (6071, 6077), (6086, 6086)]
      else if c < 6966 then
       [(6089, 6099), (6103, 6103), (6109, 6109), (6155, 6159), (6211, 6211), (6277, 6278),
        (6313, 6313), (6432, 6434), (6439, 6440), (6450, 6450), (6457, 6459), (6679, 6680),
        (6683, 6683), (6742, 6742), (6744, 6750), (6752, 6752), (6754, 6754), (6757, 6764),
        (6771, 6780), (6783, 6783), (6823, 6823), (6832, 6862), (6912, 6915), (6964, 6964)]
      else if c < 8125 then
       [(6966, 6970), (6972, 6972), (6978, 6978), (7019, 7027), (7040, 7041), (7074, 7077),
        (7080, 7081), (7083, 7085), (7142, 7142), (7144, 7145), (7149, 7149), (7151, 7153),
        (7212, 7219), (7222, 7223), (7288, 7293), (7376, 7378), (7380, 7392), (7394, 7400),
        (7405, 7405), (7412, 7412), (7416, 7417), (7468, 7530), (7544, 7544), (7579, 7679)]
      else if c < 12330 then
       [(8125, 8125), (8127, 8129), (8141, 8143), (8157, 8159), (8173, 8175), (8189, 8190),
        (8203, 8207), (8216, 8217), (8228, 8228), (8231, 8231), (8234, 8238), (8288, 8292),
        (8294, 8303), (8305, 8305), (8319, 8319), (8336, 8348), (8400, 8432), (11388, 11389),
        (11503, 11505), (11631, 11631), (11647, 11647), (11744, 11775), (11823, 11823), (12293, 12293)]
      else if c < 43232 then
       [(12330, 12333), (12337, 12341), (12347, 12347), (12441, 12446), (12540, 12542), (40981, 40981),
        (42232, 42237), (42508, 42508), (42607, 42610), (42612, 42621), (42623, 42623), (42652, 42655),
        (42736, 42737), (42752, 42785), (42864, 42864), (42888, 42890), (42994, 42996), (43000, 43001),
        (43010, 43010), (43014, 43014), (43019, 43019), (43045, 43046), (43052, 43052), (43204, 43205)]
      else if c < 43763 then
       [(43232, 43249), (43263, 43263), (43302, 43309), (43335, 43345), (43392, 43394), (43443, 43443),
        (43446, 43449), (43452, 43453), (43471, 43471), (43493, 43494), (43561, 43566), (43569, 43570),
        (43573, 43574), (43587, 43587), (43596, 43596), (43632, 43632), (43644, 43644), (43696, 43696),
        (43698, 43700), (43703, 43704), (43710, 43711), (43713, 43713), (43741, 43741), (43756, 43757)]
      else if c < 66045 then
       [(43763, 43764), (43766, 43766), (43867, 43871), (43881, 43883), (44005, 44005), (44008, 44008),
        (44013, 44013), (64286, 64286), (64434, 64450), (65024, 65039), (65043, 65043), (65056, 65071),
        (65106, 65106), (65109, 65109), (65279, 65279), (65287, 65287), (65294, 65294), (65306, 65306),
        (65342, 65342), (65344, 65344), (65392, 65392), (65438, 65439), (65507, 65507), (65529, 65531)]
      else if c < 69826 then
       [(66045, 66045), (66272, 66272), (66422, 66426), (67456, 67461), (67463, 67504), (67506, 67514),
        (68097, 68099), (68101, 68102), (68108, 68111), (68152, 68154), (68159, 68159), (68325, 68326),
        (68900, 68903), (69291, 69292), (69446, 69456), (69506, 69509), (69633, 69633), (69688, 69702),
        (69744, 69744), (69747, 69748), (69759, 69761), (69811, 69814), (69817, 69818), (69821, 69821)]
      else if c < 70750 then
       [(69826, 69826), (69837, 69837), (69888, 69890), (69927, 69931), (69933, 69940), (70003, 70003),
        (70016, 70017), (70070, 70078), (70089, 70092), (70095, 70095), (70191, 70193), (70196, 70196),
        (70198, 70199), (70206, 70206), (70367, 70367), (70371, 70378), (70400, 70401), (70459, 70460),
        (70464, 70464), (70502, 70508), (70512, 70516), (70712, 70719), (70722, 70724), (70726, 70726)]
      else if c < 72148 then
       [(70750, 70750), (70835, 70840), (70842, 70842), (70847, 70848), (70850, 70851), (71090, 71093),
        (71100, 71101), (71103, 71104), (71132, 71133), (71219, 71226), (71229, 71229), (71231, 71232),
        (71339, 71339), (71341, 71341), (71344, 71349), (71351, 71351), (71453, 71455), (71458, 71461),
        (71463, 71467), (71727, 71735), (71737, 71738), (71995, 71996), (71998, 71998), (72003, 72003)]
      else if c < 73109 then
       [(72148, 72151), (72154, 72155), (72160, 72160), (72193, 72202), (72243, 72248), (72251, 72254),
        (72263, 72263), (72273, 72278), (72281, 72283), (72330, 72342), (72344, 72345), (72752, 72758),
        (72760, 72765), (72767, 72767), (72850, 72871), (72874, 72880), (72882, 72883), (72885, 72886),
        (73009, 73014), (73018, 73018), (73020, 73021), (73023, 73029), (73031, 73031), (73104, 73105)]
      else if c < 121403 then
       [(73109, 73109), (73111, 73111), (73459, 73460), (78896, 78904), (92912, 92916), (92976, 92982),
        (92992, 92995), (94031, 94031), (94095, 94111), (94176, 94177), (94179, 94180), (110576, 110579),
        (110581, 110587), (110589, 110590), (113821, 113822), (113824, 113827), (118528, 118573), (118576, 118598),
        (119143, 119145), (119155, 119170), (119173, 119179), (119210, 119213), (119362, 119364), (121344, 121398)]
      else
       [(121403, 121452), (121461, 121461), (121476, 121476), (121499, 121503), (121505, 121519), (122880, 122886),
        (122888, 122904), (122907, 122913), (122915, 122916), (122918, 122922), (123184, 123197), (123566, 123566),
        (123628, 123631), (125136, 125142), (125252, 125259), (127995, 127999), (917505, 917505), (917536, 917631),
        (917760, 917999)])"

definition decimal_zeros :: "nat list" where
  "decimal_zeros =
    [48, 1632, 1776, 1984, 2406, 2534, 2662, 2790, 2918, 3046,
     3174, 3302, 3430, 3558, 3664, 3792, 3872, 4160, 4240, 6112,
     6160, 6470, 6608, 6784, 6800, 6992, 7088, 7232, 7248, 42528,
     43216, 43264, 43472, 43504, 43600, 44016, 65296, 66720, 68912, 69734,
     69872, 69942, 70096, 70384, 70736, 70864, 71248, 71360, 71472, 71904,
     72016, 72784, 73040, 73120, 92768, 92864, 93008, 120782, 120792, 120802,
     120812, 120822, 123200, 123632, 125264, 130032]"

subsection \<open>strip, upper, lower\<close>

fun in_ranges :: "(nat \<times> nat) list \<Rightarrow> nat \<Rightarrow> bool" where
  "in_ranges [] c = False"
| "in_ranges ((lo, hi) # rs) c = ((lo \<le> c \<and> c \<le> hi) \<or> in_ranges rs c)"

fun run_lookup :: "(nat \<times> nat \<times> nat \<times> nat) list \<Rightarrow> nat \<Rightarrow> nat option" where
  "run_lookup [] c = None"
| "run_lookup ((lo, hi, step, tgt) # rs) c =
     (if lo \<le> c \<and> c \<le> hi \<and> (c - lo) mod step = 0 then Some (tgt + (c - lo))
      else run_lookup rs c)"

definition is_space :: "nat \<Rightarrow> bool" where
  "is_space c = in_ranges space_ranges c"

text \<open>\<^verbatim>\<open>s.strip()\<close>: drop the whitespace at both ends.\<close>

definition py_strip :: "str \<Rightarrow> str" where
  "py_strip s = rev (dropWhile is_space (rev (dropWhile is_space s)))"

text \<open>
  \<^verbatim>\<open>s.upper()\<close> maps each code point to its full uppercase, which may be several code
  points (U+00DF gives \<^verbatim>\<open>SS\<close>), with no look at the neighbours.
\<close>

definition upper_cp :: "nat \<Rightarrow> str" where
  "upper_cp c =
     (if c < 128 then (if 97 \<le> c \<and> c \<le> 122 then [c - 32] else [c])
      else case map_of (upper_special c) c of
             Some us \<Rightarrow> us
           | None \<Rightarrow> (case run_lookup (upper_runs c) c of Some u \<Rightarrow> [u] | None \<Rightarrow> [c]))"

definition py_upper :: "str \<Rightarrow> str" where
  "py_upper s = concat (map upper_cp s)"

text \<open>
  \<^verbatim>\<open>s.lower()\<close> maps each code point to its full lowercase (U+0130 gives two code
  points), except capital sigma, U+03A3 = 931, whose lowercase depends on its place in the
  word: final sigma (962) when the nearest character before it that is not case-ignorable is
  cased and the nearest one after it that is not case-ignorable is not cased (or there is none),
  small sigma (963) otherwise. \<open>pre\<close> is the text before the sigma, nearest first.
\<close>

definition lower_cp :: "nat \<Rightarrow> str" where
  "lower_cp c =
     (if c < 128 then (if 65 \<le> c \<and> c \<le> 90 then [c + 32] else [c])
      else if c = 304 then [105, 775]
      else case run_lookup (lower_runs c) c of Some l \<Rightarrow> [l] | None \<Rightarrow> [c])"

definition case_ignorable :: "nat \<Rightarrow> bool" where
  "case_ignorable c = in_ranges (case_ignorable_ranges c) c"

definition cased :: "nat \<Rightarrow> bool" where
  "cased c = in_ranges (cased_ranges c) c"

definition final_sigma :: "str \<Rightarrow> str \<Rightarrow> nat" where
  "final_sigma pre post =
     (case dropWhile case_ignorable pre of
        [] \<Rightarrow> 963
      | b # _ \<Rightarrow>
          if cased b then
            (case dropWhile case_ignorable post of
               [] \<Rightarrow> 962
             | a # _ \<Rightarrow> if cased a then 963 else 962)
          else 963)"

fun lower_from :: "str \<Rightarrow> str \<Rightarrow> str" where
  "lower_from pre [] = []"
| "lower_from pre (c # cs) =
     (if c = 931 then [final_sigma pre cs] else lower_cp c) @ lower_from (c # pre) cs"

definition py_lower :: "str \<Rightarrow> str" where
  "py_lower s = lower_from [] s"

text \<open>\<^verbatim>\<open>str(n)\<close> for an integer, as the f-string of the source formats it.\<close>

function digits_of_nat :: "nat \<Rightarrow> str" where
  "digits_of_nat n = (if n < 10 then [48 + n] else digits_of_nat (n div 10) @ [48 + n mod 10])"
  by pat_completeness auto
termination
  by (relation "measure id") auto

definition str_of_int :: "int \<Rightarrow> str" where
  "str_of_int i = (if i < 0 then 45 # digits_of_nat (nat (- i)) else digits_of_nat (nat i))"

section \<open>The phone mapper\<close>

text \<open>\<^verbatim>\<open>VOWEL_BASES\<close>: the ARPABET bases that take a stress digit.\<close>

definition VOWEL_BASES :: "str set" where
  "VOWEL_BASES = set (map ascii
     [''AA'', ''AE'', ''AH'', ''AO'', ''AW'', ''AY'', ''EH'', ''ER'', ''EY'', ''IH'', ''IY'',
      ''OW'', ''OY'', ''UH'', ''UW''])"

text \<open>
  \<^verbatim>\<open>IPA_TO_ARPABET\<close>, entry for entry in the order of the source. The keys outside ASCII are
  given by code point: 593 = U+0251 (alpha), 230 = U+00E6 (ae), 652 = U+028C (turned v),
  601 = U+0259 (schwa), 596 = U+0254 (open o), 618 = U+026A (small capital i),
  650 = U+028A (upsilon), 604 = U+025C (reversed open e), 605 = U+025D (the same with hook),
  602 = U+025A (schwa with hook), 643 = U+0283 (esh), 240 = U+00F0 (eth),
  603 = U+025B (open e), 609 = U+0261 (script g), 658 = U+0292 (ezh), 331 = U+014B (eng),
  633 = U+0279 (turned r), 952 = U+03B8 (theta). The dictionary's \<^verbatim>\<open>get\<close> is the lookup
  \<open>map_of\<close>; no key occurs twice.
\<close>

definition IPA_TO_ARPABET_items :: "(str \<times> str) list" where
  "IPA_TO_ARPABET_items =
    [([593], ascii ''AA''), ([230], ascii ''AE''), ([652], ascii ''AH''),
     ([601], ascii ''AH0''), ([596], ascii ''AO''),
     ([97, 618], ascii ''AY''), ([97, 650], ascii ''AW''), ([101, 618], ascii ''EY''),
     ([111, 650], ascii ''OW''), ([596, 618], ascii ''OY''),
     (ascii ''aj'', ascii ''AY''), (ascii ''aw'', ascii ''AW''), (ascii ''ej'', ascii ''EY''),
     (ascii ''ow'', ascii ''OW''), ([596, 106], ascii ''OY''),
     ([604, 114], ascii ''ER''), ([601, 114], ascii ''ER0''),
     ([605], ascii ''ER''), ([602], ascii ''ER0''),
     ([618], ascii ''IH''), (ascii ''i'', ascii ''IY''), ([650], ascii ''UH''),
     (ascii ''u'', ascii ''UW''),
     (ascii ''b'', ascii ''B''), ([116, 643], ascii ''CH''), (ascii ''d'', ascii ''D''),
     ([240], ascii ''DH''), ([603], ascii ''EH''), (ascii ''f'', ascii ''F''),
     ([609], ascii ''G''), (ascii ''g'', ascii ''G''), (ascii ''h'', ascii ''HH''),
     ([100, 658], ascii ''JH''), (ascii ''k'', ascii ''K''), (ascii ''l'', ascii ''L''),
     (ascii ''m'', ascii ''M''), (ascii ''n'', ascii ''N''), ([331], ascii ''NG''),
     (ascii ''p'', ascii ''P''), (ascii ''r'', ascii ''R''), ([633], ascii ''R''),
     (ascii ''s'', ascii ''S''), ([643], ascii ''SH''), (ascii ''t'', ascii ''T''),
     ([952], ascii ''TH''), (ascii ''v'', ascii ''V''), (ascii ''w'', ascii ''W''),
     (ascii ''j'', ascii ''Y''), (ascii ''z'', ascii ''Z''), ([658], ascii ''ZH''),
     (ascii ''spn'', ascii ''spn''), (ascii ''sil'', ascii ''sil'')]"

definition IPA_TO_ARPABET :: "str \<Rightarrow> str option" where
  "IPA_TO_ARPABET = map_of IPA_TO_ARPABET_items"

text \<open>
  \<^verbatim>\<open>_ARPABET_RE.match(s)\<close> for the pattern \<^verbatim>\<open>^[A-Z]{1,3}[0-2]?$\<close>: one to three
  capital ASCII letters, then at most one of the digits 0, 1, 2, then the end of the
  string. In Python \<^verbatim>\<open>$\<close> also matches just before a newline that ends the string.
\<close>

definition is_AZ :: "nat \<Rightarrow> bool" where
  "is_AZ c \<longleftrightarrow> 65 \<le> c \<and> c \<le> 90"

definition is_012 :: "nat \<Rightarrow> bool" where
  "is_012 c \<longleftrightarrow> 48 \<le> c \<and> c \<le> 50"

definition arpabet_body :: "str \<Rightarrow> bool" where
  "arpabet_body s =
     (let n = length (takeWhile is_AZ s); r = dropWhile is_AZ s
      in 1 \<le> n \<and> n \<le> 3 \<and> (case r of [] \<Rightarrow> True | [d] \<Rightarrow> is_012 d | _ \<Rightarrow> False))"

definition ARPABET_RE_match :: "str \<Rightarrow> bool" where
  "ARPABET_RE_match s \<longleftrightarrow>
     arpabet_body s \<or> (s \<noteq> [] \<and> last s = 10 \<and> arpabet_body (butlast s))"

definition looks_like_arpabet :: "str \<Rightarrow> bool" where
  "looks_like_arpabet s0 =
     (let s = py_upper (py_strip s0) in s = ascii ''SPN'' \<or> ARPABET_RE_match s)"

text \<open>\<^verbatim>\<open>s.endswith(("0", "1", "2"))\<close>.\<close>

definition endswith_012 :: "str \<Rightarrow> bool" where
  "endswith_012 s \<longleftrightarrow> s \<noteq> [] \<and> is_012 (last s)"

text \<open>
  \<^verbatim>\<open>ipa_phone_to_arpabet(phone, default_stress)\<close>. The stress policy is Python's
  \<^verbatim>\<open>int | None\<close>. No step of the function can raise on a string, so the result is a
  plain string.
\<close>

definition ipa_phone_to_arpabet :: "str \<Rightarrow> int option \<Rightarrow> str" where
  "ipa_phone_to_arpabet phone default_stress =
     (let raw = phone; p = py_strip phone in
      if p = [] then raw
      else if py_lower p \<in> {ascii ''spn'', ascii ''sil''} then py_lower p
      else if looks_like_arpabet p then
        (let up = py_upper p in if up = ascii ''SPN'' then ascii ''spn'' else up)
      else
        (let p_norm = p;
             base = (case IPA_TO_ARPABET p_norm of
                       None \<Rightarrow> IPA_TO_ARPABET (py_lower p_norm)
                     | Some b \<Rightarrow> Some b)
         in case base of
              None \<Rightarrow> p
            | Some b \<Rightarrow>
                if endswith_012 (py_upper b) then py_upper b
                else
                  (let base_up = py_upper b in
                   case default_stress of
                     Some d \<Rightarrow> if base_up \<in> VOWEL_BASES then base_up @ str_of_int d else base_up
                   | None \<Rightarrow> base_up)))"

section \<open>The document converter\<close>

text \<open>
  A loaded JSON value. Documents come from \<^verbatim>\<open>json.load\<close>, so they are trees: no list or
  dictionary is shared between two places, and converting in place is the same as building
  the converted tree. A dictionary keeps its insertion order and is an association list
  (\<^verbatim>\<open>json.load\<close> gives every key once); \<^verbatim>\<open>d[k]\<close> is \<open>map_of\<close>, and assigning to a key
  that is present replaces the value where it stands (\<open>AList.update\<close>). The conversion never
  looks at a float, so floats are left abstract.
\<close>

datatype 'f json =
    JNull
  | JBool bool
  | JInt int
  | JFloat 'f
  | JStr str
  | JArr "'f json list"
  | JObj "(str \<times> 'f json) list"

text \<open>
  The body of the loop of \<^verbatim>\<open>_convert_interval_container\<close>: an item that is a dictionary
  with a string under \<^verbatim>\<open>text\<close> gets that string converted; any other item is left as it is.
\<close>

definition convert_interval :: "'f json \<Rightarrow> int option \<Rightarrow> 'f json" where
  "convert_interval it default_stress =
     (case it of
        JObj kvs \<Rightarrow>
          (case map_of kvs (ascii ''text'') of
             Some (JStr t) \<Rightarrow>
               JObj (AList.update (ascii ''text'') (JStr (ipa_phone_to_arpabet t default_stress)) kvs)
           | _ \<Rightarrow> it)
      | _ \<Rightarrow> it)"

definition convert_interval_container :: "'f json \<Rightarrow> int option \<Rightarrow> 'f json" where
  "convert_interval_container container default_stress =
     (case container of
        JObj kvs \<Rightarrow> JObj (map (\<lambda>(k, it). (k, convert_interval it default_stress)) kvs)
      | JArr its \<Rightarrow> JArr (map (\<lambda>it. convert_interval it default_stress) its)
      | _ \<Rightarrow> container)"

text \<open>\<^verbatim>\<open>convert_per_file\<close>, on the entries of the per-file dictionary.\<close>

definition convert_per_file :: "(str \<times> 'f json) list \<Rightarrow> int option \<Rightarrow> (str \<times> 'f json) list" where
  "convert_per_file per_file default_stress =
     (case map_of per_file (ascii ''phones'') of
        Some phones \<Rightarrow>
          AList.update (ascii ''phones'') (convert_interval_container phones default_stress) per_file
      | None \<Rightarrow> per_file)"

definition convert_json_obj :: "'f json \<Rightarrow> int option \<Rightarrow> 'f json" where
  "convert_json_obj obj default_stress =
     (case obj of
        JObj kvs \<Rightarrow>
          if map_of kvs (ascii ''words'') \<noteq> None \<and> map_of kvs (ascii ''phones'') \<noteq> None
          then JObj (convert_per_file kvs default_stress)
          else JObj (map (\<lambda>(k, per_file).
                  (k, case per_file of
                        JObj pf \<Rightarrow> JObj (convert_per_file pf default_stress)
                      | _ \<Rightarrow> per_file)) kvs)
      | _ \<Rightarrow> obj)"

section \<open>The command line\<close>

subsection \<open>Python's \<^verbatim>\<open>int()\<close> on a string\<close>

text \<open>
  \<^verbatim>\<open>int(s)\<close> first turns every Unicode space into a blank and every Unicode decimal digit
  into its ASCII digit (code points below 127 stay, anything else is an error), then reads:
  blanks, an optional sign, digits with single underscores allowed between them, blanks.
  Here a blank is one of the six ASCII whitespace characters of C. A literal of more than
  4300 digits is refused (the interpreter's default limit). \<open>None\<close> is \<^verbatim>\<open>ValueError\<close>.
\<close>

definition decimal_value :: "nat \<Rightarrow> nat option" where
  "decimal_value c =
     (case filter (\<lambda>z. z \<le> c \<and> c < z + 10) decimal_zeros of
        [] \<Rightarrow> None
      | z # _ \<Rightarrow> Some (c - z))"

fun to_ascii_digits :: "str \<Rightarrow> str option" where
  "to_ascii_digits [] = Some []"
| "to_ascii_digits (c # cs) =
     (if c < 127 then map_option (Cons c) (to_ascii_digits cs)
      else if is_space c then map_option (Cons 32) (to_ascii_digits cs)
      else case decimal_value c of
             None \<Rightarrow> None
           | Some d \<Rightarrow> map_option (Cons (48 + d)) (to_ascii_digits cs))"

definition is_c_space :: "nat \<Rightarrow> bool" where
  "is_c_space c \<longleftrightarrow> c = 32 \<or> (9 \<le> c \<and> c \<le> 13)"

fun no_double_underscore :: "str \<Rightarrow> bool" where
  "no_double_underscore (a # b # cs) = (\<not> (a = 95 \<and> b = 95) \<and> no_double_underscore (b # cs))"
| "no_double_underscore cs = True"

definition digits_ok :: "str \<Rightarrow> bool" where
  "digits_ok ds \<longleftrightarrow>
     ds \<noteq> [] \<and> hd ds \<noteq> 95 \<and> last ds \<noteq> 95
     \<and> list_all (\<lambda>c. c = 95 \<or> (48 \<le> c \<and> c \<le> 57)) ds \<and> no_double_underscore ds"

definition int_max_str_digits :: nat where
  "int_max_str_digits = 4300"

definition py_int :: "str \<Rightarrow> int option" where
  "py_int s =
     (case to_ascii_digits s of
        None \<Rightarrow> None
      | Some a \<Rightarrow>
          (let a1 = dropWhile is_c_space a;
               neg = (a1 \<noteq> [] \<and> hd a1 = 45);
               a2 = (if a1 \<noteq> [] \<and> (hd a1 = 43 \<or> hd a1 = 45) then tl a1 else a1);
               a3 = rev (dropWhile is_c_space (rev a2));
               ds = filter (\<lambda>c. c \<noteq> 95) a3
           in if digits_ok a3 \<and> length ds \<le> int_max_str_digits
              then Some ((if neg then - 1 else 1) * int (foldl (\<lambda>acc c. 10 * acc + (c - 48)) 0 ds))
              else None))"

subsection \<open>The stress policy of \<^verbatim>\<open>--default_stress\<close>\<close>

text \<open>
  The first check of \<^verbatim>\<open>main\<close>: \<open>Inr\<close> is the policy, \<open>Inl\<close> the message of the
  \<^verbatim>\<open>SystemExit\<close> it raises.
\<close>

definition stress_message :: str where
  "stress_message = ascii ''--default_stress must be 0, 1, 2, or '' @ [39] @ ascii ''none'' @ [39]"

definition parse_default_stress :: "str \<Rightarrow> str + int option" where
  "parse_default_stress v =
     (if py_lower v = ascii ''none'' then Inr None
      else case py_int v of
             None \<Rightarrow> Inl stress_message
           | Some d \<Rightarrow> if d \<in> {0, 1, 2} then Inr (Some d) else Inl stress_message)"

subsection \<open>\<^verbatim>\<open>main\<close>\<close>

text \<open>
  The parsed arguments, and how a run ends: \<^verbatim>\<open>main\<close> returns 0, or a \<^verbatim>\<open>SystemExit\<close> with
  a message is raised (exit status 1), or an exception of a collaborator escapes (exit
  status 1).
\<close>

record args =
  arg_input :: str
  arg_out :: "str option"
  arg_out_dir :: "str option"
  arg_inplace :: bool
  arg_default_stress :: str

datatype 'e exit = Returned int | SystemExit str | Raised 'e

fun exit_status :: "'e exit \<Rightarrow> int" where
  "exit_status (Returned n) = n"
| "exit_status (SystemExit msg) = 1"
| "exit_status (Raised e) = 1"

text \<open>
  Paths, the file system and JSON files are the collaborators of the program: \<open>'p\<close> is a
  \<^verbatim>\<open>pathlib.Path\<close>, \<open>'fs\<close> the state of the file system, \<open>'it\<close> the state of the generator
  \<^verbatim>\<open>root.rglob("*.json")\<close>, \<open>'e\<close> an exception. \<open>path_of\<close> is the constructor \<^verbatim>\<open>Path(s)\<close>,
  \<open>joinpath\<close> the operator \<^verbatim>\<open>/\<close>. The operations that can raise return a sum:
  \<^verbatim>\<open>expanduser\<close>, \<^verbatim>\<open>with_suffix\<close> and \<^verbatim>\<open>relative_to\<close>, the tests \<^verbatim>\<open>exists\<close>, \<^verbatim>\<open>is_file\<close>
  and \<^verbatim>\<open>is_dir\<close> (which pass on the errors of the operating system other than a missing
  path), the walk, and reading. Reading does not change the file system; writing may
  change it even when it fails.
\<close>

record ('p, 'fs, 'it, 'e, 'f) collaborators =
  path_of :: "str \<Rightarrow> 'p"
  expanduser :: "'p \<Rightarrow> 'e + 'p"
  path_str :: "'p \<Rightarrow> str"
  path_parts :: "'p \<Rightarrow> str list"
  path_name :: "'p \<Rightarrow> str"
  path_parent :: "'p \<Rightarrow> 'p"
  with_suffix :: "'p \<Rightarrow> str \<Rightarrow> 'e + 'p"
  relative_to :: "'p \<Rightarrow> 'p \<Rightarrow> 'e + 'p"
  joinpath :: "'p \<Rightarrow> 'p \<Rightarrow> 'p"
  path_exists :: "'fs \<Rightarrow> 'p \<Rightarrow> 'e + bool"
  is_file :: "'fs \<Rightarrow> 'p \<Rightarrow> 'e + bool"
  is_dir :: "'fs \<Rightarrow> 'p \<Rightarrow> 'e + bool"
  rglob_json :: "'p \<Rightarrow> 'it"
  rglob_next :: "'fs \<Rightarrow> 'it \<Rightarrow> 'e + ('p \<times> 'it) option"
  read_json :: "'fs \<Rightarrow> 'p \<Rightarrow> 'e + 'f json"
  write_json :: "'p \<Rightarrow> 'f json \<Rightarrow> 'fs \<Rightarrow> 'e option \<times> 'fs"

text \<open>\<^verbatim>\<open>_default_outfile_for_file\<close> and \<^verbatim>\<open>_default_outdir_for_dir\<close>.\<close>

definition default_outfile_for_file ::
  "('p, 'fs, 'it, 'e, 'f) collaborators \<Rightarrow> 'p \<Rightarrow> 'e + 'p" where
  "default_outfile_for_file io in_file = with_suffix io in_file (ascii ''.arpa.json'')"

definition default_outdir_for_dir ::
  "('p, 'fs, 'it, 'e, 'f) collaborators \<Rightarrow> 'p \<Rightarrow> 'p" where
  "default_outdir_for_dir io in_dir =
     joinpath io (path_parent io in_dir) (path_of io (path_name io in_dir @ ascii ''_arpa''))"

text \<open>
  The next file of \<^verbatim>\<open>_iter_json_files\<close>: the next path of the walk that has no part
  starting with a dot and is a file. The walk is lazy and may never end, so the result is
  an option: \<open>None\<close> is a run that does not return.
\<close>

partial_function (option) iter_json_files_next ::
  "('p, 'fs, 'it, 'e, 'f) collaborators \<Rightarrow> 'fs \<Rightarrow> 'it \<Rightarrow> ('e + ('p \<times> 'it) option) option" where
  "iter_json_files_next io fs it =
     (case rglob_next io fs it of
        Inl e \<Rightarrow> Some (Inl e)
      | Inr None \<Rightarrow> Some (Inr None)
      | Inr (Some (p, it')) \<Rightarrow>
          if list_ex (\<lambda>part. part \<noteq> [] \<and> hd part = 46) (path_parts io p)
          then iter_json_files_next io fs it'
          else (case is_file io fs p of
                  Inl e \<Rightarrow> Some (Inl e)
                | Inr file \<Rightarrow>
                    if file then Some (Inr (Some (p, it')))
                    else iter_json_files_next io fs it'))"

text \<open>The loop of the directory branch of \<^verbatim>\<open>main\<close>.\<close>

partial_function (option) convert_files ::
  "('p, 'fs, 'it, 'e, 'f) collaborators \<Rightarrow> int option \<Rightarrow> 'p \<Rightarrow> 'p \<Rightarrow> 'it \<Rightarrow> 'fs
     \<Rightarrow> ('e exit \<times> 'fs) option" where
  "convert_files io default_stress in_path out_dir it fs =
     (case iter_json_files_next io fs it of
        None \<Rightarrow> None
      | Some (Inl e) \<Rightarrow> Some (Raised e, fs)
      | Some (Inr None) \<Rightarrow> Some (Returned 0, fs)
      | Some (Inr (Some (in_file, it'))) \<Rightarrow>
          (case relative_to io in_file in_path of
             Inl e \<Rightarrow> Some (Raised e, fs)
           | Inr rel \<Rightarrow>
               (case read_json io fs in_file of
                  Inl e \<Rightarrow> Some (Raised e, fs)
                | Inr obj \<Rightarrow>
                    (case write_json io (joinpath io out_dir rel)
                            (convert_json_obj obj default_stress) fs of
                       (Some e, fs') \<Rightarrow> Some (Raised e, fs')
                     | (None, fs') \<Rightarrow> convert_files io default_stress in_path out_dir it' fs'))))"

text \<open>
  The output path of the file branch and the output directory of the directory branch.
  An option that is \<^verbatim>\<open>None\<close> or the empty string counts as not given, since the source
  tests its truth value.
\<close>

definition file_out_path ::
  "('p, 'fs, 'it, 'e, 'f) collaborators \<Rightarrow> args \<Rightarrow> 'p \<Rightarrow> 'e + 'p" where
  "file_out_path io args in_path =
     (if arg_inplace args then Inr in_path
      else case arg_out args of
             None \<Rightarrow> default_outfile_for_file io in_path
           | Some out \<Rightarrow>
               if out \<noteq> [] then expanduser io (path_of io out)
               else default_outfile_for_file io in_path)"

definition dir_out_dir ::
  "('p, 'fs, 'it, 'e, 'f) collaborators \<Rightarrow> args \<Rightarrow> 'p \<Rightarrow> 'e + 'p" where
  "dir_out_dir io args in_path =
     (if arg_inplace args then Inr in_path
      else case arg_out_dir args of
             None \<Rightarrow> Inr (default_outdir_for_dir io in_path)
           | Some out_dir \<Rightarrow>
               if out_dir \<noteq> [] then expanduser io (path_of io out_dir)
               else Inr (default_outdir_for_dir io in_path))"

text \<open>
  \<^verbatim>\<open>main\<close>, after \<^verbatim>\<open>parse_args\<close>. The input path is expanded first, then the stress
  policy is checked, then the input path is looked at; files are read and written only
  after that.
\<close>

definition main ::
  "('p, 'fs, 'it, 'e, 'f) collaborators \<Rightarrow> args \<Rightarrow> 'fs \<Rightarrow> ('e exit \<times> 'fs) option" where
  "main io args fs =
     (case expanduser io (path_of io (arg_input args)) of
        Inl e \<Rightarrow> Some (Raised e, fs)
      | Inr in_path \<Rightarrow>
     (case parse_default_stress (arg_default_stress args) of
        Inl msg \<Rightarrow> Some (SystemExit msg, fs)
      | Inr default_stress \<Rightarrow>
     (case path_exists io fs in_path of
        Inl e \<Rightarrow> Some (Raised e, fs)
      | Inr found \<Rightarrow>
     if \<not> found then
       Some (SystemExit (ascii ''Input path not found: '' @ path_str io in_path), fs)
     else
     (case is_file io fs in_path of
        Inl e \<Rightarrow> Some (Raised e, fs)
      | Inr file \<Rightarrow>
     if file then
       (if arg_out_dir args \<noteq> None then
          Some (SystemExit (ascii ''--out_dir is only valid when input is a directory''), fs)
        else
          (case file_out_path io args in_path of
             Inl e \<Rightarrow> Some (Raised e, fs)
           | Inr out_path \<Rightarrow>
               (case read_json io fs in_path of
                  Inl e \<Rightarrow> Some (Raised e, fs)
                | Inr obj \<Rightarrow>
                    (case write_json io out_path (convert_json_obj obj default_stress) fs of
                       (Some e, fs') \<Rightarrow> Some (Raised e, fs')
                     | (None, fs') \<Rightarrow> Some (Returned 0, fs')))))
     else
     (case is_dir io fs in_path of
        Inl e \<Rightarrow> Some (Raised e, fs)
      | Inr dir \<Rightarrow>
     if dir then
       (if arg_out args \<noteq> None then
          Some (SystemExit (ascii ''--out is only valid when input is a file''), fs)
        else
          (case dir_out_dir io args in_path of
             Inl e \<Rightarrow> Some (Raised e, fs)
           | Inr out_dir \<Rightarrow>
               convert_files io default_stress in_path out_dir (rglob_json io in_path) fs))
     else
       Some (SystemExit (ascii ''Unsupported input path type: '' @ path_str io in_path),
             fs))))))"

section \<open>Notions used in the statements\<close>

text \<open>
  The shape of an ARPABET label as the property about already converted input words it: one
  to three ASCII letters of either case, then at most one of the digits 0, 1, 2.
\<close>

definition is_ascii_letter :: "nat \<Rightarrow> bool" where
  "is_ascii_letter c \<longleftrightarrow> (65 \<le> c \<and> c \<le> 90) \<or> (97 \<le> c \<and> c \<le> 122)"

definition letters_then_digit :: "str \<Rightarrow> bool" where
  "letters_then_digit p =
     (let ls = takeWhile is_ascii_letter p; r = dropWhile is_ascii_letter p
      in 1 \<le> length ls \<and> length ls \<le> 3 \<and> (r = [] \<or> (length r = 1 \<and> is_012 (hd r))))"

definition up_ascii :: "nat \<Rightarrow> nat" where
  "up_ascii c = (if 97 \<le> c \<and> c \<le> 122 then c - 32 else c)"

text \<open>
  What \<^verbatim>\<open>ipa_phone_to_arpabet\<close> returns once the table has given the value \<open>b\<close>: the last
  two steps of the function, named for the statements about converting twice.
\<close>

definition table_output :: "str \<Rightarrow> int option \<Rightarrow> str" where
  "table_output b s =
     (if endswith_012 (py_upper b) then py_upper b
      else case s of
             Some d \<Rightarrow> if py_upper b \<in> VOWEL_BASES then py_upper b @ str_of_int d else py_upper b
           | None \<Rightarrow> py_upper b)"

text \<open>
  The values of \<^verbatim>\<open>--default_stress\<close> that are accepted, and the policy an accepted value
  stands for.
\<close>

definition stress_accepted :: "str \<Rightarrow> bool" where
  "stress_accepted v \<longleftrightarrow> py_lower v = ascii ''none'' \<or> py_int v \<in> {Some 0, Some 1, Some 2}"

definition stress_policy :: "str \<Rightarrow> int option" where
  "stress_policy v = (if py_lower v = ascii ''none'' then None else py_int v)"

text \<open>
  What a conversion may change in a document. Two entries of an interval agree up to the
  text when they have the same key and the same value, or the key is \<^verbatim>\<open>text\<close> and both
  values are strings. Two intervals, two \<^verbatim>\<open>phones\<close> containers, two per-file objects and
  two documents agree up to the phone texts when they are equal or have the same
  constructor, the same length and the same keys in the same order, and their members agree
  in that way; outside a \<^verbatim>\<open>phones\<close> container nothing may differ.
\<close>

definition is_JStr :: "'f json \<Rightarrow> bool" where
  "is_JStr v = (case v of JStr _ \<Rightarrow> True | _ \<Rightarrow> False)"

definition same_but_text :: "str \<times> 'f json \<Rightarrow> str \<times> 'f json \<Rightarrow> bool" where
  "same_but_text a b \<longleftrightarrow>
     fst a = fst b \<and> (snd a = snd b \<or> (fst a = ascii ''text'' \<and> is_JStr (snd a) \<and> is_JStr (snd b)))"

definition interval_frame :: "'f json \<Rightarrow> 'f json \<Rightarrow> bool" where
  "interval_frame a b \<longleftrightarrow>
     a = b \<or> (case (a, b) of (JObj kvs, JObj kvs') \<Rightarrow> list_all2 same_but_text kvs kvs' | _ \<Rightarrow> False)"

definition container_frame :: "'f json \<Rightarrow> 'f json \<Rightarrow> bool" where
  "container_frame c c' \<longleftrightarrow>
     c = c' \<or>
     (case (c, c') of
        (JArr its, JArr its') \<Rightarrow> list_all2 interval_frame its its'
      | (JObj kvs, JObj kvs') \<Rightarrow>
          list_all2 (\<lambda>a b. fst a = fst b \<and> interval_frame (snd a) (snd b)) kvs kvs'
      | _ \<Rightarrow> False)"

definition per_file_frame :: "'f json \<Rightarrow> 'f json \<Rightarrow> bool" where
  "per_file_frame p p' \<longleftrightarrow>
     p = p' \<or>
     (case (p, p') of
        (JObj kvs, JObj kvs') \<Rightarrow>
          list_all2 (\<lambda>a b. fst a = fst b \<and>
             (snd a = snd b \<or> (fst a = ascii ''phones'' \<and> container_frame (snd a) (snd b)))) kvs kvs'
      | _ \<Rightarrow> False)"

definition document_frame :: "'f json \<Rightarrow> 'f json \<Rightarrow> bool" where
  "document_frame d d' \<longleftrightarrow>
     per_file_frame d d' \<or>
     (case (d, d') of
        (JObj kvs, JObj kvs') \<Rightarrow>
          list_all2 (\<lambda>a b. fst a = fst b \<and> per_file_frame (snd a) (snd b)) kvs kvs'
      | _ \<Rightarrow> False)"

text \<open>
  A stand-in for the collaborators, for running \<^verbatim>\<open>main\<close> on examples. A path is a
  relative file name without separators and without a tilde in front, kept as a string (the
  empty string is the path \<^verbatim>\<open>.\<close>, which has no name and no parts); the file system is an
  association list from names to the documents stored there; every stored name is a file,
  there are no directories, and nothing raises except reading a missing file and
  \<^verbatim>\<open>with_suffix\<close> on a path without a name. On such names \<open>flat_with_suffix\<close> is
  \<^verbatim>\<open>with_suffix\<close> of pathlib: the old suffix starts at the last dot, unless that dot is the
  first or the last character.
\<close>

definition flat_with_suffix :: "str \<Rightarrow> str \<Rightarrow> str + str" where
  "flat_with_suffix name suffix =
     (let after = length (takeWhile (\<lambda>c. c \<noteq> 46) (rev name)) in
      if name = [] then Inl (ascii ''ValueError'')
      else if 46 \<in> set name \<and> 0 < after \<and> after + 1 < length name
      then Inr (take (length name - (after + 1)) name @ suffix)
      else Inr (name @ suffix))"

definition memory_io :: "(str, (str \<times> 'f json) list, unit, str, 'f) collaborators" where
  "memory_io =
     \<lparr> path_of = (\<lambda>s. if s = [] then [46] else s),
       expanduser = Inr,
       path_str = (\<lambda>p. p),
       path_parts = (\<lambda>p. if p = [46] then [] else [p]),
       path_name = (\<lambda>p. if p = [46] then [] else p),
       path_parent = (\<lambda>p. [46]),
       with_suffix = (\<lambda>p. flat_with_suffix (if p = [46] then [] else p)),
       relative_to = (\<lambda>p root. Inr p),
       joinpath = (\<lambda>d p. if d = [46] then p else d @ [47] @ p),
       path_exists = (\<lambda>fs p. Inr (map_of fs p \<noteq> None)),
       is_file = (\<lambda>fs p. Inr (map_of fs p \<noteq> None)),
       is_dir = (\<lambda>fs p. Inr False),
       rglob_json = (\<lambda>root. ()),
       rglob_next = (\<lambda>fs it. Inr None),
       read_json = (\<lambda>fs p. case map_of fs p of
                               None \<Rightarrow> Inl (ascii ''FileNotFoundError'')
                             | Some d \<Rightarrow> Inr d),
       write_json = (\<lambda>p d fs. (None, AList.update p d fs)) \<rparr>"

text \<open>
  Documents for the examples: a per-file object with a list of two intervals (with a
  float left abstract as its literal), the same after conversion under the policy 1, and
  the same with one boundary moved; a document of two files; and the document of the
  end-to-end scenario, as a function of the label of its first phone (U+0254 before the
  conversion).
\<close>

definition roundtrip_document :: "string json" where
  "roundtrip_document =
     JObj [(ascii ''words'', JArr [JObj [(ascii ''text'', JStr (ascii ''i''))]]),
           (ascii ''phones'',
              JArr [JObj [(ascii ''text'', JStr (ascii ''t'')), (ascii ''xmin'', JInt 0),
                          (ascii ''xmax'', JFloat ''0.1'')],
                    JObj [(ascii ''xmin'', JFloat ''0.1''), (ascii ''text'', JStr [596])],
                    JObj [(ascii ''text'', JNull)]])]"

definition roundtrip_converted :: "string json" where
  "roundtrip_converted =
     JObj [(ascii ''words'', JArr [JObj [(ascii ''text'', JStr (ascii ''i''))]]),
           (ascii ''phones'',
              JArr [JObj [(ascii ''text'', JStr (ascii ''T'')), (ascii ''xmin'', JInt 0),
                          (ascii ''xmax'', JFloat ''0.1'')],
                    JObj [(ascii ''xmin'', JFloat ''0.1''), (ascii ''text'', JStr (ascii ''AO1''))],
                    JObj [(ascii ''text'', JNull)]])]"

definition roundtrip_retimed :: "string json" where
  "roundtrip_retimed =
     JObj [(ascii ''words'', JArr [JObj [(ascii ''text'', JStr (ascii ''i''))]]),
           (ascii ''phones'',
              JArr [JObj [(ascii ''text'', JStr (ascii ''T'')), (ascii ''xmin'', JInt 1),
                          (ascii ''xmax'', JFloat ''0.1'')],
                    JObj [(ascii ''xmin'', JFloat ''0.1''), (ascii ''text'', JStr (ascii ''AO1''))],
                    JObj [(ascii ''text'', JNull)]])]"

definition two_files_document :: "string json" where
  "two_files_document =
     JObj [(ascii ''a.wav'', JObj [(ascii ''phones'', JObj [(ascii ''0'', JObj [(ascii ''text'', JStr [601])])])]),
           (ascii ''b.wav'', JObj [(ascii ''words'', JArr []), (ascii ''phones'', JArr [JObj [(ascii ''text'', JStr [952])]])]),
           (ascii ''note'', JStr [601])]"

definition two_files_converted :: "string json" where
  "two_files_converted =
     JObj [(ascii ''a.wav'', JObj [(ascii ''phones'', JObj [(ascii ''0'', JObj [(ascii ''text'', JStr (ascii ''AH0''))])])]),
           (ascii ''b.wav'', JObj [(ascii ''words'', JArr []), (ascii ''phones'', JArr [JObj [(ascii ''text'', JStr (ascii ''TH''))]])]),
           (ascii ''note'', JStr [601])]"

definition scenario_with :: "str \<Rightarrow> string json" where
  "scenario_with label =
     JObj [(ascii ''words'', JArr []),
           (ascii ''phones'',
              JObj [(ascii ''0'', JObj [(ascii ''text'', JStr label)]),
                    (ascii ''1'', JObj [(ascii ''text'', JStr (ascii ''spn''))])])]"

definition scenario_args :: "str \<Rightarrow> args" where
  "scenario_args stress =
     \<lparr> arg_input = ascii ''a.json'', arg_out = None, arg_out_dir = None, arg_inplace = True,
       arg_default_stress = stress \<rparr>"

section \<open>Evaluating the string functions\<close>

lemma upper_cp_ascii:
  "c < 128 \<Longrightarrow> upper_cp c = (if 97 \<le> c \<and> c \<le> 122 then [c - 32] else [c])"
  by (simp add: upper_cp_def)

lemma lower_cp_ascii:
  "c < 128 \<Longrightarrow> lower_cp c = (if 65 \<le> c \<and> c \<le> 90 then [c + 32] else [c])"
  by (simp add: lower_cp_def)

text \<open>The case mappings of the code points outside ASCII that the statements below use.\<close>

lemma upper_cp_ipa:
  "upper_cp 593 = [11373]" "upper_cp 230 = [198]" "upper_cp 652 = [581]" "upper_cp 601 = [399]"
  "upper_cp 596 = [390]" "upper_cp 618 = [42926]" "upper_cp 650 = [433]" "upper_cp 604 = [42923]"
  "upper_cp 605 = [605]" "upper_cp 602 = [602]" "upper_cp 643 = [425]" "upper_cp 240 = [208]"
  "upper_cp 603 = [400]" "upper_cp 609 = [42924]" "upper_cp 658 = [439]" "upper_cp 331 = [330]"
  "upper_cp 633 = [633]" "upper_cp 952 = [920]" "upper_cp 664 = [664]"
  "upper_cp 383 = [83]" "upper_cp 305 = [73]"
  by (simp_all add: upper_cp_def upper_special_def upper_runs_def)

lemma lower_cp_ipa:
  "lower_cp 593 = [593]" "lower_cp 230 = [230]" "lower_cp 652 = [652]" "lower_cp 601 = [601]"
  "lower_cp 596 = [596]" "lower_cp 618 = [618]" "lower_cp 650 = [650]" "lower_cp 604 = [604]"
  "lower_cp 605 = [605]" "lower_cp 602 = [602]" "lower_cp 643 = [643]" "lower_cp 240 = [240]"
  "lower_cp 603 = [603]" "lower_cp 609 = [609]" "lower_cp 658 = [658]" "lower_cp 331 = [331]"
  "lower_cp 633 = [633]" "lower_cp 952 = [952]" "lower_cp 664 = [664]"
  "lower_cp 383 = [383]" "lower_cp 305 = [305]"
  by (simp_all add: lower_cp_def lower_runs_def)

lemma final_sigma_example:
  "py_lower [913, 931] = [945, 962]" "py_lower [913, 931, 39, 913] = [945, 963, 39, 945]"
  by (simp_all add: py_lower_def lower_cp_def lower_runs_def final_sigma_def cased_def
      case_ignorable_def cased_ranges_def case_ignorable_ranges_def)

lemmas string_eval = py_strip_def is_space_def space_ranges_def py_lower_def py_upper_def
  upper_cp_ascii lower_cp_ascii upper_cp_ipa lower_cp_ipa ascii_def

lemmas phone_eval = ipa_phone_to_arpabet_def string_eval looks_like_arpabet_def
  ARPABET_RE_match_def arpabet_body_def is_AZ_def is_012_def endswith_012_def VOWEL_BASES_def
  IPA_TO_ARPABET_def IPA_TO_ARPABET_items_def str_of_int_def

lemmas int_eval = py_int_def is_c_space_def digits_ok_def int_max_str_digits_def
  parse_default_stress_def string_eval

lemma noise_literals:
  "ascii ''spn'' = [115, 112, 110]" "ascii ''sil'' = [115, 105, 108]"
  "ascii ''SPN'' = [83, 80, 78]"
  by (simp_all add: ascii_def)

section \<open>Facts about strip, upper and lower\<close>

text \<open>Stripping twice is stripping once.\<close>

lemma py_strip_idem: "py_strip (py_strip s) = py_strip s"
proof -
  define t where "t = dropWhile is_space s"
  define u where "u = rev (dropWhile is_space (rev t))"
  have parts: "t = u @ rev (takeWhile is_space (rev t))"
  proof -
    have "u @ rev (takeWhile is_space (rev t)) =
          rev (takeWhile is_space (rev t) @ dropWhile is_space (rev t))"
      by (simp only: u_def rev_append)
    also have "\<dots> = rev (rev t)" by (simp only: takeWhile_dropWhile_id)
    finally show ?thesis by simp
  qed
  have front: "dropWhile is_space u = u"
  proof (cases "u = []")
    case True
    then show ?thesis by simp
  next
    case False
    then have "hd u = hd t" using parts by (metis hd_append2)
    moreover have "t \<noteq> []" using False parts by auto
    ultimately have "\<not> is_space (hd u)"
      using hd_dropWhile [of is_space s] by (simp add: t_def)
    then show ?thesis using False by (simp add: dropWhile_eq_self_iff)
  qed
  have rear: "dropWhile is_space (rev u) = rev u" by (simp add: u_def)
  have "py_strip s = u" by (simp add: py_strip_def t_def u_def)
  moreover have "py_strip u = u" by (simp add: py_strip_def front rear)
  ultimately show ?thesis by simp
qed

lemma lower_from_ascii:
  "\<forall>c\<in>set cs. c < 128 \<Longrightarrow>
   lower_from pre cs = map (\<lambda>c. if 65 \<le> c \<and> c \<le> 90 then c + 32 else c) cs"
  by (induction cs arbitrary: pre) (auto simp: lower_cp_def)

lemma py_lower_ascii:
  "\<forall>c\<in>set cs. c < 128 \<Longrightarrow>
   py_lower cs = map (\<lambda>c. if 65 \<le> c \<and> c \<le> 90 then c + 32 else c) cs"
  by (simp add: py_lower_def lower_from_ascii)

lemma py_upper_ascii:
  "\<forall>c\<in>set cs. c < 128 \<Longrightarrow> py_upper cs = map up_ascii cs"
  by (induction cs) (auto simp: py_upper_def upper_cp_def up_ascii_def)

lemma py_lower_Nil: "py_lower [] = []"
  by (simp add: py_lower_def)

lemma ascii_upper_lower:
  assumes "\<forall>c\<in>set p. c < 128"
  shows "py_lower (py_upper p) = py_lower p"
proof -
  have "\<forall>c\<in>set (map up_ascii p). c < 128" using assms by (auto simp: up_ascii_def)
  then have "py_lower (map up_ascii p) =
      map (\<lambda>c. if 65 \<le> c \<and> c \<le> 90 then c + 32 else c) (map up_ascii p)"
    by (rule py_lower_ascii)
  also have "\<dots> = map (\<lambda>c. if 65 \<le> c \<and> c \<le> 90 then c + 32 else c) p"
    using assms by (auto simp: up_ascii_def)
  also have "\<dots> = py_lower p" using py_lower_ascii [OF assms] by simp
  finally show ?thesis by (simp add: py_upper_ascii [OF assms])
qed

section \<open>Inputs of ARPABET shape\<close>

lemma letters_then_digit_parts:
  assumes "letters_then_digit p"
  obtains ls r where "p = ls @ r" "ls \<noteq> []" "length ls \<le> 3"
    "\<forall>c\<in>set ls. is_ascii_letter c" "r = [] \<or> (\<exists>d. r = [d] \<and> is_012 d)"
proof -
  let ?ls = "takeWhile is_ascii_letter p" and ?r = "dropWhile is_ascii_letter p"
  have 1: "p = ?ls @ ?r" by simp
  have 2: "?ls \<noteq> []" "length ?ls \<le> 3"
    using assms by (auto simp: letters_then_digit_def Let_def)
  have 3: "\<forall>c\<in>set ?ls. is_ascii_letter c" by (auto dest: set_takeWhileD)
  have 4: "?r = [] \<or> (\<exists>d. ?r = [d] \<and> is_012 d)"
  proof (cases "?r = []")
    case True
    then show ?thesis by simp
  next
    case False
    then have "length ?r = 1 \<and> is_012 (hd ?r)"
      using assms by (auto simp: letters_then_digit_def Let_def)
    then show ?thesis by (cases ?r) auto
  qed
  show ?thesis using that [OF 1 2 3 4] .
qed

lemma letters_then_digit_ascii:
  assumes "letters_then_digit p"
  shows "p \<noteq> []" and "\<forall>c\<in>set p. c < 128"
proof -
  from assms obtain ls r where h: "p = ls @ r" "ls \<noteq> []" "length ls \<le> 3"
    "\<forall>c\<in>set ls. is_ascii_letter c" "r = [] \<or> (\<exists>d. r = [d] \<and> is_012 d)"
    by (rule letters_then_digit_parts)
  show "p \<noteq> []" using h by simp
  show "\<forall>c\<in>set p. c < 128" using h by (auto simp: is_ascii_letter_def is_012_def)
qed

lemma letters_then_digit_upper:
  assumes "letters_then_digit p"
  shows "arpabet_body (py_upper p)"
proof -
  from assms obtain ls r where h: "p = ls @ r" "ls \<noteq> []" "length ls \<le> 3"
    "\<forall>c\<in>set ls. is_ascii_letter c" "r = [] \<or> (\<exists>d. r = [d] \<and> is_012 d)"
    by (rule letters_then_digit_parts)
  have up: "py_upper p = map up_ascii ls @ r"
    using py_upper_ascii [OF letters_then_digit_ascii(2) [OF assms]] h
    by (auto simp: up_ascii_def is_012_def)
  have AZ: "\<forall>c\<in>set (map up_ascii ls). is_AZ c"
    using h(4) by (auto simp: is_ascii_letter_def is_AZ_def up_ascii_def)
  have r_AZ: "takeWhile is_AZ r = []" "dropWhile is_AZ r = r"
    using h(5) by (auto simp: is_AZ_def is_012_def)
  have "takeWhile is_AZ (map up_ascii ls @ r) = map up_ascii ls @ takeWhile is_AZ r"
    by (rule takeWhile_append2) (use AZ in blast)
  then have tw: "takeWhile is_AZ (map up_ascii ls @ r) = map up_ascii ls"
    by (simp add: r_AZ)
  have "dropWhile is_AZ (map up_ascii ls @ r) = dropWhile is_AZ r"
    by (rule dropWhile_append2) (use AZ in blast)
  then have dw: "dropWhile is_AZ (map up_ascii ls @ r) = r"
    by (simp add: r_AZ)
  show ?thesis
    using h(2,3,5) by (auto simp: arpabet_body_def up tw dw Let_def Suc_le_eq)
qed

section \<open>Converting twice\<close>

text \<open>
  A string of ARPABET form is returned as it is, and so is everything the table branch
  returns under the policies \<^verbatim>\<open>None\<close>, 0, 1, 2. Hence converting twice is converting once
  for every input whose trimmed form is ASCII.
\<close>

lemma py_strip_last:
  assumes "py_strip x \<noteq> []"
  shows "\<not> is_space (last (py_strip x))"
proof -
  let ?p = "py_strip x"
  have "rev ?p = dropWhile is_space (rev (dropWhile is_space x))"
    by (simp add: py_strip_def)
  moreover have "rev ?p \<noteq> []" using assms by simp
  ultimately have "\<not> is_space (hd (rev ?p))" by (metis hd_dropWhile)
  then show ?thesis using assms by (simp add: hd_rev)
qed

lemma py_strip_self:
  assumes "u \<noteq> []" "\<not> is_space (hd u)" "\<not> is_space (last u)"
  shows "py_strip u = u"
proof -
  have "dropWhile is_space u = u" using assms by (simp add: dropWhile_eq_self_iff)
  moreover have "dropWhile is_space (rev u) = rev u"
    using assms by (simp add: dropWhile_eq_self_iff hd_rev)
  ultimately show ?thesis by (simp add: py_strip_def)
qed

lemma arpabet_body_chars:
  assumes "arpabet_body u"
  shows "u \<noteq> []" and "\<forall>c\<in>set u. is_AZ c \<or> is_012 c"
proof -
  let ?ls = "takeWhile is_AZ u" and ?r = "dropWhile is_AZ u"
  have u: "u = ?ls @ ?r" by simp
  have ne: "?ls \<noteq> []" using assms by (auto simp: arpabet_body_def Let_def)
  then show "u \<noteq> []" by auto
  have r: "\<forall>c\<in>set ?r. is_012 c"
  proof (cases ?r)
    case Nil
    show ?thesis unfolding Nil by simp
  next
    case (Cons d ds)
    have "ds = [] \<and> is_012 d"
      using assms unfolding arpabet_body_def Let_def Cons by (simp split: list.splits)
    then show ?thesis unfolding Cons by simp
  qed
  have ls: "\<forall>c\<in>set ?ls. is_AZ c" by (auto dest: set_takeWhileD)
  have "set u = set ?ls \<union> set ?r" by (metis set_append takeWhile_dropWhile_id)
  then show "\<forall>c\<in>set u. is_AZ c \<or> is_012 c" using ls r by blast
qed

lemma not_space_AZ_012: "is_AZ c \<or> is_012 c \<Longrightarrow> \<not> is_space c"
  by (auto simp: is_AZ_def is_012_def is_space_def space_ranges_def)

lemma arpabet_form_fixed:
  assumes body: "arpabet_body u"
    and low: "py_lower u \<notin> {ascii ''spn'', ascii ''sil''}"
    and spn: "u \<noteq> ascii ''SPN''"
  shows "ipa_phone_to_arpabet u s = u"
proof -
  have ne: "u \<noteq> []" and chars: "\<forall>c\<in>set u. is_AZ c \<or> is_012 c"
    using arpabet_body_chars [OF body] by simp_all
  have "\<not> is_space (hd u)" "\<not> is_space (last u)"
    using ne chars not_space_AZ_012 by (metis hd_in_set, metis last_in_set)
  then have strip: "py_strip u = u" using ne by (rule py_strip_self [rotated])
  have asc: "\<forall>c\<in>set u. c < 128" using chars by (auto simp: is_AZ_def is_012_def)
  have "map up_ascii u = u"
    using chars by (intro map_idI) (auto simp: up_ascii_def is_AZ_def is_012_def)
  then have up: "py_upper u = u" by (simp add: py_upper_ascii [OF asc])
  have looks: "looks_like_arpabet u"
    using body by (simp add: looks_like_arpabet_def strip up ARPABET_RE_match_def)
  show ?thesis
    using ne low looks spn by (simp add: ipa_phone_to_arpabet_def strip up)
qed

lemma noise_fixed:
  "ipa_phone_to_arpabet (ascii ''spn'') s = ascii ''spn''"
  "ipa_phone_to_arpabet (ascii ''sil'') s = ascii ''sil''"
  by (simp_all add: phone_eval)

lemma table_values:
  assumes "IPA_TO_ARPABET k = Some b" and "k \<notin> {ascii ''spn'', ascii ''sil''}"
  shows "b \<in> set (map ascii
     [''AA'', ''AE'', ''AH'', ''AH0'', ''AO'', ''AY'', ''AW'', ''EY'', ''OW'', ''OY'', ''ER'',
      ''ER0'', ''IH'', ''IY'', ''UH'', ''UW'', ''B'', ''CH'', ''D'', ''DH'', ''EH'', ''F'', ''G'',
      ''HH'', ''JH'', ''K'', ''L'', ''M'', ''N'', ''NG'', ''P'', ''R'', ''S'', ''SH'', ''T'',
      ''TH'', ''V'', ''W'', ''Y'', ''Z'', ''ZH''])"
proof -
  have "(k, b) \<in> set IPA_TO_ARPABET_items"
    using assms(1) by (simp add: IPA_TO_ARPABET_def map_of_SomeD)
  then show ?thesis using assms(2)
    by (auto simp: IPA_TO_ARPABET_items_def)
qed



lemma table_outputs_fixed:
  "list_all (\<lambda>b. list_all (\<lambda>s. ipa_phone_to_arpabet (table_output b s) s = table_output b s)
       [None, Some 0, Some 1, Some 2])
     (map ascii
     [''AA'', ''AE'', ''AH'', ''AH0'', ''AO'', ''AY'', ''AW'', ''EY'', ''OW'', ''OY'', ''ER'',
      ''ER0'', ''IH'', ''IY'', ''UH'', ''UW'', ''B'', ''CH'', ''D'', ''DH'', ''EH'', ''F'', ''G'',
      ''HH'', ''JH'', ''K'', ''L'', ''M'', ''N'', ''NG'', ''P'', ''R'', ''S'', ''SH'', ''T'',
      ''TH'', ''V'', ''W'', ''Y'', ''Z'', ''ZH''])"
  by (simp add: table_output_def phone_eval)


lemma table_output_fixed:
  assumes "IPA_TO_ARPABET k = Some b" and "k \<notin> {ascii ''spn'', ascii ''sil''}"
    and "s \<in> {None, Some 0, Some 1, Some 2}"
  shows "ipa_phone_to_arpabet (table_output b s) s = table_output b s"
proof -
  have "list_all (\<lambda>s. ipa_phone_to_arpabet (table_output b s) s = table_output b s)
       [None, Some 0, Some 1, Some 2]"
    using table_outputs_fixed table_values [OF assms(1,2)]
    by (simp only: list_all_iff) blast
  then show ?thesis using assms(3) by (simp only: list_all_iff) auto
qed

lemma idempotent_on_ascii:
  assumes asc: "\<forall>c\<in>set (py_strip x). c < 128"
    and pol: "s \<in> {None, Some 0, Some 1, Some 2}"
  shows "ipa_phone_to_arpabet (ipa_phone_to_arpabet x s) s = ipa_phone_to_arpabet x s"
proof -
  let ?p = "py_strip x"
  consider (blank) "?p = []"
    | (noise) "?p \<noteq> []" "py_lower ?p \<in> {ascii ''spn'', ascii ''sil''}"
    | (arpabet) "?p \<noteq> []" "py_lower ?p \<notin> {ascii ''spn'', ascii ''sil''}" "looks_like_arpabet ?p"
    | (table) "?p \<noteq> []" "py_lower ?p \<notin> {ascii ''spn'', ascii ''sil''}"
        "\<not> looks_like_arpabet ?p"
    by blast
  then show ?thesis
  proof cases
    case blank
    then have "ipa_phone_to_arpabet x s = x" by (simp add: ipa_phone_to_arpabet_def)
    then show ?thesis by simp
  next
    case noise
    then have "ipa_phone_to_arpabet x s = py_lower ?p" by (simp add: ipa_phone_to_arpabet_def)
    then show ?thesis using noise(2) noise_fixed by auto
  next
    case arpabet
    let ?up = "py_upper ?p"
    have first: "ipa_phone_to_arpabet x s = (if ?up = ascii ''SPN'' then ascii ''spn'' else ?up)"
      using arpabet by (simp add: ipa_phone_to_arpabet_def Let_def)
    show ?thesis
    proof (cases "?up = ascii ''SPN''")
      case True
      then show ?thesis using first noise_fixed by simp
    next
      case False
      have up: "?up = map up_ascii ?p" by (rule py_upper_ascii [OF asc])
      have "last ?up \<noteq> 10"
      proof
        assume "last ?up = 10"
        then have "up_ascii (last ?p) = 10" using arpabet(1) by (simp add: up last_map)
        then have "last ?p = 10" by (simp add: up_ascii_def split: if_splits)
        then have "is_space (last ?p)" by (simp add: is_space_def space_ranges_def)
        then show False using py_strip_last [OF arpabet(1)] by simp
      qed
      moreover have "ARPABET_RE_match ?up"
        using arpabet(3) False by (simp add: looks_like_arpabet_def py_strip_idem)
      ultimately have body: "arpabet_body ?up" by (auto simp: ARPABET_RE_match_def)
      have "py_lower ?up = py_lower ?p" by (rule ascii_upper_lower [OF asc])
      then have "ipa_phone_to_arpabet ?up s = ?up"
        using arpabet(2) False body by (intro arpabet_form_fixed) simp_all
      then show ?thesis using first False by simp
    qed
  next
    case table
    show ?thesis
    proof (cases "IPA_TO_ARPABET ?p")
      case None
      show ?thesis
      proof (cases "IPA_TO_ARPABET (py_lower ?p)")
        case None
        with \<open>IPA_TO_ARPABET ?p = None\<close> table
        have first: "ipa_phone_to_arpabet x s = ?p" by (simp add: ipa_phone_to_arpabet_def)
        have "ipa_phone_to_arpabet ?p s = ?p"
          using None \<open>IPA_TO_ARPABET ?p = None\<close> table
          by (simp add: ipa_phone_to_arpabet_def py_strip_idem)
        then show ?thesis using first by simp
      next
        case (Some b)
        with \<open>IPA_TO_ARPABET ?p = None\<close> table
        have first: "ipa_phone_to_arpabet x s = table_output b s"
          by (simp add: ipa_phone_to_arpabet_def table_output_def Let_def)
        show ?thesis
          using table_output_fixed [OF Some table(2) pol] first by simp
      qed
    next
      case (Some b)
      with table have first: "ipa_phone_to_arpabet x s = table_output b s"
        by (simp add: ipa_phone_to_arpabet_def table_output_def Let_def)
      have "?p \<notin> {ascii ''spn'', ascii ''sil''}"
      proof
        assume "?p \<in> {ascii ''spn'', ascii ''sil''}"
        then have "py_lower ?p \<in> {ascii ''spn'', ascii ''sil''}"
          by (auto simp: py_lower_def lower_cp_def ascii_def)
        then show False using table(2) by simp
      qed
      then show ?thesis
        using table_output_fixed [OF Some _ pol] first by simp
    qed
  qed
qed

section \<open>The phone mapper: properties\<close>

text \<open>
  C1. The ASCII spellings \<^verbatim>\<open>aj\<close>, \<^verbatim>\<open>aw\<close>, \<^verbatim>\<open>ej\<close>, \<^verbatim>\<open>ow\<close> of the diphthongs are two ASCII
  letters, so they look like ARPABET and are returned in capitals before the table is
  consulted: with stress policy 1 they give \<^verbatim>\<open>AJ\<close>, \<^verbatim>\<open>AW\<close>, \<^verbatim>\<open>EJ\<close>, \<^verbatim>\<open>OW\<close>, while the IPA
  spellings give \<^verbatim>\<open>AY1\<close>, \<^verbatim>\<open>AW1\<close>, \<^verbatim>\<open>EY1\<close>, \<^verbatim>\<open>OW1\<close>. Only the fifth pair agrees: its
  ASCII-style spelling starts with U+0254 and reaches the table. The table entries for the
  four ASCII spellings are there and are never reached.
\<close>

theorem ascii_diphthongs_not_mapped:
  "ipa_phone_to_arpabet (ascii ''aj'') (Some 1) = ascii ''AJ''
   \<and> ipa_phone_to_arpabet [97, 618] (Some 1) = ascii ''AY1''
   \<and> ipa_phone_to_arpabet (ascii ''aw'') (Some 1) = ascii ''AW''
   \<and> ipa_phone_to_arpabet [97, 650] (Some 1) = ascii ''AW1''
   \<and> ipa_phone_to_arpabet (ascii ''ej'') (Some 1) = ascii ''EJ''
   \<and> ipa_phone_to_arpabet [101, 618] (Some 1) = ascii ''EY1''
   \<and> ipa_phone_to_arpabet (ascii ''ow'') (Some 1) = ascii ''OW''
   \<and> ipa_phone_to_arpabet [111, 650] (Some 1) = ascii ''OW1''
   \<and> ipa_phone_to_arpabet [596, 106] (Some 1) = ascii ''OY1''
   \<and> ipa_phone_to_arpabet [596, 618] (Some 1) = ascii ''OY1''
   \<and> IPA_TO_ARPABET (ascii ''aj'') = Some (ascii ''AY'')"
  by (simp add: phone_eval)

text \<open>
  C2. The phone \<^verbatim>\<open>i\<close> is one ASCII letter, so it looks like ARPABET: whatever the stress
  policy, the result is \<^verbatim>\<open>I\<close>, not \<^verbatim>\<open>IY\<close> with the policy's digit, although the table maps
  \<^verbatim>\<open>i\<close> to \<^verbatim>\<open>IY\<close>. A vowel the table is reached for, such as U+026A, does get the digit of
  the policy, and none when there is no policy.
\<close>

theorem ascii_vowel_gets_no_stress:
  "ipa_phone_to_arpabet (ascii ''i'') s = ascii ''I''
   \<and> IPA_TO_ARPABET (ascii ''i'') = Some (ascii ''IY'')
   \<and> ipa_phone_to_arpabet [618] (Some 1) = ascii ''IH1''
   \<and> ipa_phone_to_arpabet [618] (Some 0) = ascii ''IH0''
   \<and> ipa_phone_to_arpabet [618] None = ascii ''IH''"
  by (simp add: phone_eval)

text \<open>
  C3, as amended. When the trimmed input is one to three ASCII letters, of either case,
  followed by at most one of the digits 0, 1, 2, the result is the trimmed input in
  capitals, whatever the stress policy and whatever the table holds, unless the trimmed
  input in lower case is \<^verbatim>\<open>spn\<close> or \<^verbatim>\<open>sil\<close>: then the result is that noise token in lower
  case. In particular \<^verbatim>\<open>h\<close> gives \<^verbatim>\<open>H\<close> and \<^verbatim>\<open>ow\<close> gives \<^verbatim>\<open>OW\<close> for every policy.
\<close>

theorem arpabet_shaped_input:
  "(letters_then_digit (py_strip phone) \<longrightarrow>
      ipa_phone_to_arpabet phone s =
        (if py_lower (py_strip phone) \<in> {ascii ''spn'', ascii ''sil''}
         then py_lower (py_strip phone) else py_upper (py_strip phone)))
   \<and> ipa_phone_to_arpabet (ascii ''h'') s = ascii ''H''
   \<and> ipa_phone_to_arpabet (ascii ''ow'') s = ascii ''OW''"
proof (intro conjI impI)
  let ?p = "py_strip phone"
  assume h: "letters_then_digit ?p"
  have ne: "?p \<noteq> []" and asc: "\<forall>c\<in>set ?p. c < 128"
    using letters_then_digit_ascii [OF h] by simp_all
  have looks: "looks_like_arpabet ?p"
    using letters_then_digit_upper [OF h]
    by (simp add: looks_like_arpabet_def py_strip_idem ARPABET_RE_match_def)
  have "py_lower ?p = ascii ''spn''" if "py_upper ?p = ascii ''SPN''"
  proof -
    have "py_lower (py_upper ?p) = ascii ''spn''"
      by (simp add: that noise_literals py_lower_def lower_cp_def)
    then show ?thesis by (simp add: ascii_upper_lower [OF asc])
  qed
  then show "ipa_phone_to_arpabet phone s =
        (if py_lower ?p \<in> {ascii ''spn'', ascii ''sil''} then py_lower ?p else py_upper ?p)"
    using ne looks by (auto simp: ipa_phone_to_arpabet_def Let_def)
next
  show "ipa_phone_to_arpabet (ascii ''h'') s = ascii ''H''" by (simp add: phone_eval)
next
  show "ipa_phone_to_arpabet (ascii ''ow'') s = ascii ''OW''" by (simp add: phone_eval)
qed

text \<open>
  An input of that shape, with blanks around it and in mixed case: \<^verbatim>\<open>" Ay2 "\<close> gives
  \<^verbatim>\<open>AY2\<close> under the policy 1.
\<close>

theorem arpabet_shaped_input_witness:
  "letters_then_digit (py_strip (ascii '' Ay2 ''))
   \<and> py_lower (py_strip (ascii '' Ay2 '')) \<notin> {ascii ''spn'', ascii ''sil''}
   \<and> ipa_phone_to_arpabet (ascii '' Ay2 '') (Some 1) = ascii ''AY2''"
proof -
  have shape: "letters_then_digit (py_strip (ascii '' Ay2 ''))"
    by (simp add: letters_then_digit_def is_ascii_letter_def is_012_def string_eval)
  have low: "py_lower (py_strip (ascii '' Ay2 '')) = ascii ''ay2''"
    and up: "py_upper (py_strip (ascii '' Ay2 '')) = ascii ''AY2''"
    by (simp_all add: string_eval)
  show ?thesis
    using arpabet_shaped_input [of "ascii '' Ay2 ''" "Some 1"] shape
    by (simp add: low up) (simp add: ascii_def)
qed

text \<open>
  C3, as it is stated, fails on the noise tokens: \<^verbatim>\<open>sil\<close> is three ASCII letters, and the
  result is \<^verbatim>\<open>sil\<close>, not \<^verbatim>\<open>SIL\<close>.
\<close>

theorem arpabet_shaped_input_counterexample:
  "letters_then_digit (py_strip (ascii ''sil''))
   \<and> ipa_phone_to_arpabet (ascii ''sil'') (Some 1) = ascii ''sil''
   \<and> ipa_phone_to_arpabet (ascii ''sil'') (Some 1) \<noteq> py_upper (py_strip (ascii ''sil''))"
  by (simp add: letters_then_digit_def is_ascii_letter_def phone_eval)

text \<open>
  C5. When the table is reached and the value found there ends, in capitals, in one of the
  digits 0, 1, 2, the result is that value in capitals under every stress policy, \<^verbatim>\<open>None\<close>
  included: the digit of the table wins over the policy. The table has three such entries,
  schwa (U+0259), schwa followed by \<^verbatim>\<open>r\<close>, and schwa with hook (U+025A), and each of these
  keys gives its value: \<^verbatim>\<open>AH0\<close>, \<^verbatim>\<open>ER0\<close>, \<^verbatim>\<open>ER0\<close>.
\<close>

theorem fixed_stress_override:
  "((IPA_TO_ARPABET (py_strip phone) = Some b
       \<or> (IPA_TO_ARPABET (py_strip phone) = None
           \<and> IPA_TO_ARPABET (py_lower (py_strip phone)) = Some b))
      \<and> py_strip phone \<noteq> []
      \<and> py_lower (py_strip phone) \<notin> {ascii ''spn'', ascii ''sil''}
      \<and> \<not> looks_like_arpabet (py_strip phone)
      \<and> endswith_012 (py_upper b)
      \<longrightarrow> ipa_phone_to_arpabet phone s = py_upper b)
   \<and> list_all (\<lambda>(k, b). endswith_012 (py_upper b) \<longrightarrow> ipa_phone_to_arpabet k s = py_upper b)
        IPA_TO_ARPABET_items
   \<and> filter (\<lambda>(k, b). endswith_012 (py_upper b)) IPA_TO_ARPABET_items
        = [([601], ascii ''AH0''), ([601, 114], ascii ''ER0''), ([602], ascii ''ER0'')]
   \<and> ipa_phone_to_arpabet [601] s = ascii ''AH0''
   \<and> ipa_phone_to_arpabet [602] s = ascii ''ER0''
   \<and> ipa_phone_to_arpabet [601, 114] s = ascii ''ER0''"
proof (intro conjI impI)
  assume "(IPA_TO_ARPABET (py_strip phone) = Some b
       \<or> (IPA_TO_ARPABET (py_strip phone) = None
           \<and> IPA_TO_ARPABET (py_lower (py_strip phone)) = Some b))
      \<and> py_strip phone \<noteq> []
      \<and> py_lower (py_strip phone) \<notin> {ascii ''spn'', ascii ''sil''}
      \<and> \<not> looks_like_arpabet (py_strip phone)
      \<and> endswith_012 (py_upper b)"
  then show "ipa_phone_to_arpabet phone s = py_upper b"
    by (auto simp: ipa_phone_to_arpabet_def)
next
  show "list_all (\<lambda>(k, b). endswith_012 (py_upper b) \<longrightarrow> ipa_phone_to_arpabet k s = py_upper b)
        IPA_TO_ARPABET_items"
    by (simp add: phone_eval)
next
  show "filter (\<lambda>(k, b). endswith_012 (py_upper b)) IPA_TO_ARPABET_items
        = [([601], ascii ''AH0''), ([601, 114], ascii ''ER0''), ([602], ascii ''ER0'')]"
    by (simp add: phone_eval)
qed (simp_all add: phone_eval)


text \<open>
  Schwa followed by \<^verbatim>\<open>r\<close>, with a blank in front and a newline behind, reaches the table
  and gives \<^verbatim>\<open>ER0\<close> both without a policy and under the policy 2.
\<close>

theorem fixed_stress_override_witness:
  "IPA_TO_ARPABET (py_strip [32, 601, 114, 10]) = Some (ascii ''ER0'')
   \<and> py_strip [32, 601, 114, 10] \<noteq> []
   \<and> py_lower (py_strip [32, 601, 114, 10]) \<notin> {ascii ''spn'', ascii ''sil''}
   \<and> \<not> looks_like_arpabet (py_strip [32, 601, 114, 10])
   \<and> endswith_012 (py_upper (ascii ''ER0''))
   \<and> ipa_phone_to_arpabet [32, 601, 114, 10] None = ascii ''ER0''
   \<and> ipa_phone_to_arpabet [32, 601, 114, 10] (Some 2) = ascii ''ER0''"
proof -
  have strip: "py_strip [32, 601, 114, 10] = [601, 114]" by (simp add: string_eval)
  have 1: "IPA_TO_ARPABET (py_strip [32, 601, 114, 10]) = Some (ascii ''ER0'')"
    by (simp add: strip IPA_TO_ARPABET_def IPA_TO_ARPABET_items_def ascii_def)
  have 2: "py_strip [32, 601, 114, 10] \<noteq> []" by (simp add: strip)
  have 3: "py_lower (py_strip [32, 601, 114, 10]) \<notin> {ascii ''spn'', ascii ''sil''}"
    by (simp add: strip string_eval)
  have 4: "\<not> looks_like_arpabet (py_strip [32, 601, 114, 10])"
    by (simp add: strip looks_like_arpabet_def ARPABET_RE_match_def arpabet_body_def
        is_AZ_def string_eval)
  have 5: "endswith_012 (py_upper (ascii ''ER0''))"
    by (simp add: endswith_012_def is_012_def string_eval)
  have up: "py_upper (ascii ''ER0'') = ascii ''ER0''" by (simp add: string_eval)
  show ?thesis
    using fixed_stress_override [of "[32, 601, 114, 10]" "ascii ''ER0''" None]
      fixed_stress_override [of "[32, 601, 114, 10]" "ascii ''ER0''" "Some 2"] 1 2 3 4 5
    by (simp add: up)
qed


text \<open>
  C6. An input whose trimmed form is not empty, is not a noise token, does not look like
  ARPABET and is in the table neither as it is nor in lower case, comes back trimmed and
  otherwise unchanged. The function has no failing branch: it is total on strings.
\<close>

theorem unknown_phone_passthrough:
  assumes "py_strip phone \<noteq> []"
    and "py_lower (py_strip phone) \<notin> {ascii ''spn'', ascii ''sil''}"
    and "\<not> looks_like_arpabet (py_strip phone)"
    and "IPA_TO_ARPABET (py_strip phone) = None"
    and "IPA_TO_ARPABET (py_lower (py_strip phone)) = None"
  shows "ipa_phone_to_arpabet phone s = py_strip phone"
  using assms by (simp add: ipa_phone_to_arpabet_def)

text \<open>The bilabial click U+0298 is such an input: it comes back as it is.\<close>

theorem unknown_phone_passthrough_witness:
  "py_strip [664] \<noteq> []
   \<and> py_lower (py_strip [664]) \<notin> {ascii ''spn'', ascii ''sil''}
   \<and> \<not> looks_like_arpabet (py_strip [664])
   \<and> IPA_TO_ARPABET (py_strip [664]) = None
   \<and> IPA_TO_ARPABET (py_lower (py_strip [664])) = None
   \<and> ipa_phone_to_arpabet [664] (Some 1) = [664]"
proof -
  have strip: "py_strip [664] = [664]" and low: "py_lower [664] = [664]"
    by (simp_all add: string_eval)
  have 1: "py_strip [664] \<noteq> []" by (simp add: strip)
  have 2: "py_lower (py_strip [664]) \<notin> {ascii ''spn'', ascii ''sil''}"
    by (simp add: strip low ascii_def)
  have 3: "\<not> looks_like_arpabet (py_strip [664])"
    by (simp add: strip looks_like_arpabet_def ARPABET_RE_match_def arpabet_body_def
        is_AZ_def string_eval)
  have 4: "IPA_TO_ARPABET (py_strip [664]) = None"
    by (simp add: strip IPA_TO_ARPABET_def IPA_TO_ARPABET_items_def ascii_def)
  have 5: "IPA_TO_ARPABET (py_lower (py_strip [664])) = None"
    using 4 by (simp add: strip low)
  show ?thesis
    using unknown_phone_passthrough [OF 1 2 3 4 5, of "Some 1"] 1 2 3 4 5
    by (simp add: strip)
qed

text \<open>
  C7. An input whose trimmed form in lower case is \<^verbatim>\<open>spn\<close> or \<^verbatim>\<open>sil\<close> gives that token in
  lower case under every stress policy; so \<^verbatim>\<open>spn\<close> gives \<^verbatim>\<open>spn\<close> and \<^verbatim>\<open>SIL\<close> gives \<^verbatim>\<open>sil\<close>.
\<close>

theorem noise_preserved:
  "(py_lower (py_strip phone) = ascii ''spn'' \<or> py_lower (py_strip phone) = ascii ''sil''
      \<longrightarrow> ipa_phone_to_arpabet phone s = py_lower (py_strip phone))
   \<and> ipa_phone_to_arpabet (ascii ''spn'') s = ascii ''spn''
   \<and> ipa_phone_to_arpabet (ascii ''SIL'') s = ascii ''sil''"
proof (intro conjI impI)
  assume h: "py_lower (py_strip phone) = ascii ''spn'' \<or> py_lower (py_strip phone) = ascii ''sil''"
  then have "py_strip phone \<noteq> []"
    by (auto simp: py_lower_Nil noise_literals)
  with h show "ipa_phone_to_arpabet phone s = py_lower (py_strip phone)"
    by (auto simp: ipa_phone_to_arpabet_def)
next
  show "ipa_phone_to_arpabet (ascii ''spn'') s = ascii ''spn''"
    by (simp add: phone_eval)
next
  show "ipa_phone_to_arpabet (ascii ''SIL'') s = ascii ''sil''"
    by (simp add: phone_eval)
qed

text \<open>With blanks and mixed case: \<^verbatim>\<open>" Spn"\<close> followed by a newline gives \<^verbatim>\<open>spn\<close>.\<close>

theorem noise_preserved_witness:
  "py_lower (py_strip (ascii '' Spn'' @ [10])) = ascii ''spn''
   \<and> ipa_phone_to_arpabet (ascii '' Spn'' @ [10]) None = ascii ''spn''"
proof -
  have low: "py_lower (py_strip (ascii '' Spn'' @ [10])) = ascii ''spn''"
    by (simp add: string_eval)
  show ?thesis
    using noise_preserved [of "ascii '' Spn'' @ [10]" None] low by simp
qed

text \<open>
  C8. The string of U+017F (long s), \<^verbatim>\<open>i\<close>, \<^verbatim>\<open>l\<close> looks like ARPABET, because its upper
  case is \<^verbatim>\<open>SIL\<close>, and it is not a noise token, because its lower case is itself. It is
  converted to \<^verbatim>\<open>SIL\<close>, and \<^verbatim>\<open>SIL\<close> is converted to \<^verbatim>\<open>sil\<close>: converting twice differs from
  converting once. The ARPABET branch turns \<^verbatim>\<open>SPN\<close> into the noise token and has no such
  case for \<^verbatim>\<open>SIL\<close>: the same input with \<^verbatim>\<open>pn\<close> for \<^verbatim>\<open>il\<close> gives \<^verbatim>\<open>spn\<close>. On inputs
  whose trimmed form is ASCII converting twice is converting once, as shown above.
\<close>

theorem arpabet_like_not_idempotent:
  "looks_like_arpabet [383, 105, 108]
   \<and> ipa_phone_to_arpabet [383, 105, 108] s = ascii ''SIL''
   \<and> ipa_phone_to_arpabet (ipa_phone_to_arpabet [383, 105, 108] s) s = ascii ''sil''
   \<and> ipa_phone_to_arpabet (ipa_phone_to_arpabet [383, 105, 108] s) s
       \<noteq> ipa_phone_to_arpabet [383, 105, 108] s
   \<and> ipa_phone_to_arpabet [383, 112, 110] s = ascii ''spn''"
proof -
  have once: "ipa_phone_to_arpabet [383, 105, 108] s = ascii ''SIL''"
    by (simp add: phone_eval)
  have twice: "ipa_phone_to_arpabet (ascii ''SIL'') s = ascii ''sil''"
    by (simp add: phone_eval)
  have looks: "looks_like_arpabet [383, 105, 108]"
    by (simp add: phone_eval)
  have spn: "ipa_phone_to_arpabet [383, 112, 110] s = ascii ''spn''"
    by (simp add: phone_eval)
  show ?thesis by (simp add: once twice looks spn) (simp add: ascii_def)
qed

text \<open>
  C9. The same happens for \<^verbatim>\<open>s\<close>, U+0131 (dotless i), \<^verbatim>\<open>l\<close>, here with a blank in front:
  the first conversion gives \<^verbatim>\<open>SIL\<close>, the second \<^verbatim>\<open>sil\<close>, so the output of the first is
  not a fixed point.
\<close>

theorem output_not_fixed_point:
  "ipa_phone_to_arpabet [32, 115, 305, 108] s = ascii ''SIL''
   \<and> ipa_phone_to_arpabet (ipa_phone_to_arpabet [32, 115, 305, 108] s) s = ascii ''sil''
   \<and> ipa_phone_to_arpabet (ipa_phone_to_arpabet [32, 115, 305, 108] s) s
       \<noteq> ipa_phone_to_arpabet [32, 115, 305, 108] s"
proof -
  have once: "ipa_phone_to_arpabet [32, 115, 305, 108] s = ascii ''SIL''"
    by (simp add: phone_eval)
  have twice: "ipa_phone_to_arpabet (ascii ''SIL'') s = ascii ''sil''"
    by (simp add: phone_eval)
  show ?thesis by (simp add: once twice) (simp add: ascii_def)
qed

section \<open>The document converter: properties\<close>

lemma update_text_same:
  "map_of kvs (ascii ''text'') = Some (JStr t) \<Longrightarrow>
   list_all2 same_but_text kvs (AList.update (ascii ''text'') (JStr x) kvs)"
proof (induction kvs)
  case Nil
  then show ?case by simp
next
  case (Cons p ps)
  show ?case
  proof (cases "fst p = ascii ''text''")
    case True
    then have "snd p = JStr t" using Cons.prems by (cases p) simp
    then have here: "same_but_text p (ascii ''text'', JStr x)"
      using True by (simp add: same_but_text_def is_JStr_def)
    have rest: "list_all2 same_but_text ps ps"
      by (simp add: list_all2_same same_but_text_def)
    show ?thesis using True here rest by (cases p) simp
  next
    case False
    then have "map_of ps (ascii ''text'') = Some (JStr t)" using Cons.prems by (cases p) auto
    then have rest: "list_all2 same_but_text ps (AList.update (ascii ''text'') (JStr x) ps)"
      by (rule Cons.IH)
    have here: "same_but_text p p" by (simp add: same_but_text_def)
    show ?thesis using False here rest by (cases p) simp
  qed
qed

lemma interval_frame_convert: "interval_frame it (convert_interval it s)"
  by (auto simp: interval_frame_def convert_interval_def update_text_same
      split: json.splits option.splits)

lemma container_frame_convert: "container_frame c (convert_interval_container c s)"
proof (cases c)
  case (JArr its)
  have "list_all2 interval_frame its (map (\<lambda>it. convert_interval it s) its)"
    by (simp add: list_all2_map2 list_all2_same interval_frame_convert)
  then show ?thesis by (simp add: JArr container_frame_def convert_interval_container_def)
next
  case (JObj kvs)
  have "list_all2 (\<lambda>a b. fst a = fst b \<and> interval_frame (snd a) (snd b)) kvs
          (map (\<lambda>(k, it). (k, convert_interval it s)) kvs)"
    by (simp add: list_all2_map2 list_all2_same interval_frame_convert case_prod_unfold)
  then show ?thesis by (simp add: JObj container_frame_def convert_interval_container_def)
qed (simp_all add: container_frame_def convert_interval_container_def)

lemma update_phones_same:
  "map_of kvs (ascii ''phones'') = Some c \<Longrightarrow>
   list_all2 (\<lambda>a b. fst a = fst b \<and>
       (snd a = snd b \<or> (fst a = ascii ''phones'' \<and> container_frame (snd a) (snd b))))
     kvs (AList.update (ascii ''phones'') (convert_interval_container c s) kvs)"
proof (induction kvs)
  case Nil
  then show ?case by simp
next
  case (Cons p ps)
  show ?case
  proof (cases "fst p = ascii ''phones''")
    case True
    then have "snd p = c" using Cons.prems by (cases p) simp
    then show ?thesis using True
      by (cases p) (simp add: list_all2_same container_frame_convert)
  next
    case False
    then have "map_of ps (ascii ''phones'') = Some c" using Cons.prems by (cases p) auto
    then show ?thesis using False Cons.IH by (cases p) simp
  qed
qed

lemma per_file_frame_convert: "per_file_frame (JObj kvs) (JObj (convert_per_file kvs s))"
  by (auto simp: per_file_frame_def convert_per_file_def update_phones_same split: option.splits)

lemmas json_eval = convert_json_obj_def convert_per_file_def convert_interval_container_def
  convert_interval_def

lemmas frame_eval = document_frame_def per_file_frame_def container_frame_def
  interval_frame_def same_but_text_def is_JStr_def

lemma convert_examples:
  "convert_json_obj roundtrip_document (Some 1) = roundtrip_converted"
  "convert_json_obj two_files_document None = two_files_converted"
  by (simp_all add: json_eval roundtrip_document_def roundtrip_converted_def
      two_files_document_def two_files_converted_def phone_eval)

lemma convert_scenario:
  "convert_json_obj (scenario_with [596]) (Some 2) = scenario_with (ascii ''AO2'')"
  "convert_json_obj (scenario_with [596]) (Some 1) = scenario_with (ascii ''AO1'')"
  "convert_json_obj (scenario_with [596]) (Some 0) = scenario_with (ascii ''AO0'')"
  "convert_json_obj (scenario_with [596]) None = scenario_with (ascii ''AO'')"
  by (simp_all add: json_eval scenario_with_def phone_eval)

text \<open>
  C4. A converted document agrees with the document up to the phone texts: whatever the
  document is, it has the same shape, the same keys in the same order and the same values,
  except that a string under \<^verbatim>\<open>text\<close> in a dictionary that is a member of a \<^verbatim>\<open>phones\<close>
  container may be another string.
\<close>

theorem conversion_frame: "document_frame d (convert_json_obj d s)"
proof (cases d)
  case (JObj kvs)
  show ?thesis
  proof (cases "map_of kvs (ascii ''words'') \<noteq> None \<and> map_of kvs (ascii ''phones'') \<noteq> None")
    case True
    then have "convert_json_obj d s = JObj (convert_per_file kvs s)"
      by (simp add: JObj convert_json_obj_def)
    then show ?thesis by (simp add: JObj document_frame_def per_file_frame_convert)
  next
    case False
    have each: "per_file_frame v (case v of JObj pf \<Rightarrow> JObj (convert_per_file pf s) | _ \<Rightarrow> v)" for v :: "'a json"
      by (cases v) (simp_all add: per_file_frame_convert, simp_all add: per_file_frame_def)
    have "list_all2 (\<lambda>a b. fst a = fst b \<and> per_file_frame (snd a) (snd b)) kvs
            (map (\<lambda>(k, per_file).
                  (k, case per_file of JObj pf \<Rightarrow> JObj (convert_per_file pf s) | _ \<Rightarrow> per_file)) kvs)"
      by (simp add: list_all2_map2 list_all2_same case_prod_unfold each)
    then show ?thesis using False
      by (auto simp: JObj convert_json_obj_def document_frame_def)
  qed
qed (simp_all add: convert_json_obj_def document_frame_def per_file_frame_def)


text \<open>
  On the round-trip document the conversion changes the two phone texts and nothing else
  (the \<^verbatim>\<open>text\<close> under \<^verbatim>\<open>words\<close> stays, and so does a \<^verbatim>\<open>text\<close> that is not a string); a
  document with a moved boundary does not agree with it. In the document of two files each
  file is converted and the entry that is not a dictionary stays.
\<close>

theorem conversion_frame_witness:
  "document_frame roundtrip_document (convert_json_obj roundtrip_document (Some 1))
   \<and> convert_json_obj roundtrip_document (Some 1) = roundtrip_converted
   \<and> \<not> document_frame roundtrip_document roundtrip_retimed
   \<and> document_frame two_files_document (convert_json_obj two_files_document None)
   \<and> convert_json_obj two_files_document None = two_files_converted"
proof -
  have "\<not> document_frame roundtrip_document roundtrip_retimed"
    by (simp add: frame_eval roundtrip_document_def roundtrip_retimed_def ascii_def)
  then show ?thesis
    using conversion_frame [of roundtrip_document "Some 1"]
      conversion_frame [of two_files_document None]
    by (simp add: convert_examples)
qed

section \<open>The command line: properties\<close>

lemma parse_literals:
  "parse_default_stress (ascii ''0'') = Inr (Some 0)"
  "parse_default_stress (ascii ''1'') = Inr (Some 1)"
  "parse_default_stress (ascii ''2'') = Inr (Some 2)"
  "parse_default_stress (ascii ''none'') = Inr None"
  "parse_default_stress (ascii ''NONE'') = Inr None"
  "parse_default_stress (ascii '' +01 '') = Inr (Some 1)"
  "parse_default_stress (ascii ''3'') = Inl stress_message"
  "parse_default_stress (ascii ''high'') = Inl stress_message"
  "parse_default_stress [] = Inl stress_message"
  by (simp_all add: int_eval decimal_value_def decimal_zeros_def)

lemma parse_fullwidth_digit: "parse_default_stress [65298] = Inr (Some 2)"
  by (simp add: parse_default_stress_def py_lower_def lower_cp_def lower_runs_def py_int_def
      is_space_def space_ranges_def is_c_space_def digits_ok_def int_max_str_digits_def
      decimal_value_def decimal_zeros_def ascii_def)

lemma parse_by_acceptance:
  "parse_default_stress v =
     (if stress_accepted v then Inr (stress_policy v) else Inl stress_message)"
  by (auto simp: parse_default_stress_def stress_accepted_def stress_policy_def
      split: option.splits)

lemma other_messages:
  "ascii ''Input path not found: '' @ x \<noteq> stress_message"
  "ascii ''--out_dir is only valid when input is a directory'' \<noteq> stress_message"
  "ascii ''--out is only valid when input is a file'' \<noteq> stress_message"
  "ascii ''Unsupported input path type: '' @ x \<noteq> stress_message"
  by (simp_all add: stress_message_def ascii_def)

lemma convert_files_no_exit:
  assumes "convert_files io s in_path out_dir it fs = Some y"
  shows "fst y \<noteq> SystemExit msg"
proof (rule convert_files.raw_induct
    [where P = "\<lambda>io s in_path out_dir it fs y. fst y \<noteq> SystemExit msg", OF _ assms], goal_cases)
  case (1 convert_files io default_stress in_path out_dir it fs y)
  then show ?case
    by (auto split: option.splits sum.splits prod.splits)
qed


lemma rejected_run:
  assumes "\<not> stress_accepted (arg_default_stress args)"
  shows "main io args fs =
     (case expanduser io (path_of io (arg_input args)) of
        Inl e \<Rightarrow> Some (Raised e, fs)
      | Inr in_path \<Rightarrow> Some (SystemExit stress_message, fs))"
  using assms by (simp add: main_def parse_by_acceptance split: sum.splits)

lemma accepted_run_no_stress_exit:
  assumes "stress_accepted (arg_default_stress args)"
  shows "main io args fs \<noteq> Some (SystemExit stress_message, fs')"
proof
  assume m: "main io args fs = Some (SystemExit stress_message, fs')"
  have "fst y \<noteq> SystemExit stress_message"
    if "convert_files io s in_path out_dir it fs = Some y" for s in_path out_dir it y
    using that by (rule convert_files_no_exit)
  then have "convert_files io s in_path out_dir it fs \<noteq> Some (SystemExit stress_message, fs')"
    for s in_path out_dir it
    by fastforce
  then show False
    using m assms other_messages
    by (auto simp: main_def parse_by_acceptance split: sum.splits if_splits prod.splits option.splits)
qed

lemma stress_values:
  "\<not> stress_accepted (ascii ''3'')" "stress_accepted (ascii ''2'')"
  "stress_policy (ascii ''2'') = Some 2"
  "stress_accepted (ascii ''NONE'')" "stress_policy (ascii ''NONE'') = None"
  "stress_accepted (ascii '' +01 '')" "stress_policy (ascii '' +01 '') = Some 1"
  by (simp_all add: stress_accepted_def stress_policy_def int_eval)

lemma ascii_nonempty: "ascii (c # cs) \<noteq> []"
  by (simp add: ascii_def)

text \<open>
  C10, as amended. The value of \<^verbatim>\<open>--default_stress\<close> is accepted exactly when its lower
  case is \<^verbatim>\<open>none\<close> or \<^verbatim>\<open>int()\<close> reads it as 0, 1 or 2; the values \<^verbatim>\<open>0\<close>, \<^verbatim>\<open>1\<close>, \<^verbatim>\<open>2\<close>
  and \<^verbatim>\<open>none\<close> are among them and stand for the policies 0, 1, 2 and none. Once the input
  path has been expanded, \<^verbatim>\<open>main\<close> ends by the \<^verbatim>\<open>SystemExit\<close> with the usage message of
  the stress policy exactly when the value is not accepted, and then the file system is as
  it was. A value that is not accepted always ends the run with exit status 1 and the file
  system as it was. With an accepted value \<^verbatim>\<open>main\<close> goes on with the policy the value
  stands for: a missing input path is reported, a file is converted under that policy and
  written to the output path, a directory is walked under that policy.
\<close>

theorem default_stress_validation:
  "parse_default_stress v =
     (if stress_accepted v then Inr (stress_policy v) else Inl stress_message)
   \<and> (main io args fs = Some (SystemExit stress_message, fs') \<longleftrightarrow>
        \<not> stress_accepted (arg_default_stress args) \<and> fs' = fs
        \<and> (\<exists>in_path. expanduser io (path_of io (arg_input args)) = Inr in_path))
   \<and> (\<not> stress_accepted (arg_default_stress args) \<longrightarrow>
        (\<exists>x. main io args fs = Some (x, fs) \<and> exit_status x = 1))
   \<and> (stress_accepted (arg_default_stress args)
        \<and> expanduser io (path_of io (arg_input args)) = Inr in_path
        \<and> path_exists io fs in_path = Inr True \<and> is_file io fs in_path = Inr True
        \<and> arg_out_dir args = None \<and> file_out_path io args in_path = Inr out_path
        \<and> read_json io fs in_path = Inr obj \<longrightarrow>
        main io args fs =
          (case write_json io out_path
                  (convert_json_obj obj (stress_policy (arg_default_stress args))) fs of
             (Some e, fs1) \<Rightarrow> Some (Raised e, fs1)
           | (None, fs1) \<Rightarrow> Some (Returned 0, fs1)))
   \<and> (stress_accepted (arg_default_stress args)
        \<and> expanduser io (path_of io (arg_input args)) = Inr in_path
        \<and> path_exists io fs in_path = Inr True \<and> is_file io fs in_path = Inr False
        \<and> is_dir io fs in_path = Inr True
        \<and> arg_out args = None \<and> dir_out_dir io args in_path = Inr out_dir \<longrightarrow>
        main io args fs =
          convert_files io (stress_policy (arg_default_stress args)) in_path out_dir
            (rglob_json io in_path) fs)
   \<and> (stress_accepted (arg_default_stress args)
        \<and> expanduser io (path_of io (arg_input args)) = Inr in_path
        \<and> path_exists io fs in_path = Inr False \<longrightarrow>
        main io args fs =
          Some (SystemExit (ascii ''Input path not found: '' @ path_str io in_path), fs))
   \<and> stress_accepted (ascii ''0'') \<and> stress_policy (ascii ''0'') = Some 0
   \<and> stress_accepted (ascii ''1'') \<and> stress_policy (ascii ''1'') = Some 1
   \<and> stress_accepted (ascii ''2'') \<and> stress_policy (ascii ''2'') = Some 2
   \<and> stress_accepted (ascii ''none'') \<and> stress_policy (ascii ''none'') = None"
proof (intro conjI impI)
  show "parse_default_stress v =
     (if stress_accepted v then Inr (stress_policy v) else Inl stress_message)"
    by (rule parse_by_acceptance)
next
  show "main io args fs = Some (SystemExit stress_message, fs') \<longleftrightarrow>
        \<not> stress_accepted (arg_default_stress args) \<and> fs' = fs
        \<and> (\<exists>in_path. expanduser io (path_of io (arg_input args)) = Inr in_path)"
  proof (cases "stress_accepted (arg_default_stress args)")
    case True
    then show ?thesis using accepted_run_no_stress_exit [OF True] by simp
  next
    case False
    show ?thesis
      using False
      by (cases "expanduser io (path_of io (arg_input args))")
        (auto simp: rejected_run [OF False])
  qed
next
  assume "\<not> stress_accepted (arg_default_stress args)"
  then show "\<exists>x. main io args fs = Some (x, fs) \<and> exit_status x = 1"
    by (cases "expanduser io (path_of io (arg_input args))") (simp_all add: rejected_run)
next
  assume "stress_accepted (arg_default_stress args)
        \<and> expanduser io (path_of io (arg_input args)) = Inr in_path
        \<and> path_exists io fs in_path = Inr True \<and> is_file io fs in_path = Inr True
        \<and> arg_out_dir args = None \<and> file_out_path io args in_path = Inr out_path
        \<and> read_json io fs in_path = Inr obj"
  then show "main io args fs =
          (case write_json io out_path
                  (convert_json_obj obj (stress_policy (arg_default_stress args))) fs of
             (Some e, fs1) \<Rightarrow> Some (Raised e, fs1)
           | (None, fs1) \<Rightarrow> Some (Returned 0, fs1))"
    by (simp add: main_def parse_by_acceptance)
next
  assume "stress_accepted (arg_default_stress args)
        \<and> expanduser io (path_of io (arg_input args)) = Inr in_path
        \<and> path_exists io fs in_path = Inr True \<and> is_file io fs in_path = Inr False
        \<and> is_dir io fs in_path = Inr True
        \<and> arg_out args = None \<and> dir_out_dir io args in_path = Inr out_dir"
  then show "main io args fs =
          convert_files io (stress_policy (arg_default_stress args)) in_path out_dir
            (rglob_json io in_path) fs"
    by (simp add: main_def parse_by_acceptance)
next
  assume "stress_accepted (arg_default_stress args)
        \<and> expanduser io (path_of io (arg_input args)) = Inr in_path
        \<and> path_exists io fs in_path = Inr False"
  then show "main io args fs =
          Some (SystemExit (ascii ''Input path not found: '' @ path_str io in_path), fs)"
    by (simp add: main_def parse_by_acceptance)
qed (simp_all add: stress_accepted_def stress_policy_def int_eval)



text \<open>
  On a file system that holds the document of the end-to-end scenario as \<^verbatim>\<open>a.json\<close>: the
  value \<^verbatim>\<open>3\<close> ends the run with the usage message and the file as it was; the values
  \<^verbatim>\<open>2\<close>, \<^verbatim>\<open>0\<close> and \<^verbatim>\<open>none\<close> convert the file in place under their policy; without
  \<^verbatim>\<open>--inplace\<close> the value \<^verbatim>\<open>1\<close> leaves the file and writes \<^verbatim>\<open>a.arpa.json\<close>.
\<close>

theorem default_stress_validation_witness:
  "\<not> stress_accepted (ascii ''3'')
   \<and> main memory_io (scenario_args (ascii ''3'')) [(ascii ''a.json'', scenario_with [596])]
       = Some (SystemExit stress_message, [(ascii ''a.json'', scenario_with [596])])
   \<and> stress_accepted (ascii ''2'')
   \<and> main memory_io (scenario_args (ascii ''2'')) [(ascii ''a.json'', scenario_with [596])]
       = Some (Returned 0, [(ascii ''a.json'', scenario_with (ascii ''AO2''))])
   \<and> main memory_io (scenario_args (ascii ''0'')) [(ascii ''a.json'', scenario_with [596])]
       = Some (Returned 0, [(ascii ''a.json'', scenario_with (ascii ''AO0''))])
   \<and> main memory_io (scenario_args (ascii ''none'')) [(ascii ''a.json'', scenario_with [596])]
       = Some (Returned 0, [(ascii ''a.json'', scenario_with (ascii ''AO''))])
   \<and> main memory_io ((scenario_args (ascii ''1'')) \<lparr>arg_inplace := False\<rparr>)
         [(ascii ''a.json'', scenario_with [596])]
       = Some (Returned 0, [(ascii ''a.json'', scenario_with [596]),
                            (ascii ''a.arpa.json'', scenario_with (ascii ''AO1''))])"
proof -
  let ?fs = "[(ascii ''a.json'', scenario_with [596])]"
  let ?io = "memory_io :: (str, (str \<times> string json) list, unit, str, string) collaborators"
  note thm3 = default_stress_validation
    [of "ascii ''3''" ?io "scenario_args (ascii ''3'')" ?fs ?fs]
  note thm2 = default_stress_validation
    [of "ascii ''2''" ?io "scenario_args (ascii ''2'')" ?fs ?fs "ascii ''a.json''"
        "ascii ''a.json''" "scenario_with [596]"]
  have rejected: "main ?io (scenario_args (ascii ''3'')) ?fs = Some (SystemExit stress_message, ?fs)"
    using thm3 by (simp add: scenario_args_def stress_values memory_io_def ascii_nonempty)
  have accepted: "main ?io (scenario_args (ascii ''2'')) ?fs
       = Some (Returned 0, [(ascii ''a.json'', scenario_with (ascii ''AO2''))])"
    using thm2
    by (simp add: scenario_args_def stress_values memory_io_def file_out_path_def
        convert_scenario ascii_nonempty)
  have others:
    "main ?io (scenario_args (ascii ''0'')) ?fs
       = Some (Returned 0, [(ascii ''a.json'', scenario_with (ascii ''AO0''))])"
    "main ?io (scenario_args (ascii ''none'')) ?fs
       = Some (Returned 0, [(ascii ''a.json'', scenario_with (ascii ''AO''))])"
    by (simp_all add: main_def memory_io_def scenario_args_def parse_literals file_out_path_def
        convert_scenario ascii_nonempty)
  have beside:
    "main ?io ((scenario_args (ascii ''1'')) \<lparr>arg_inplace := False\<rparr>) ?fs
       = Some (Returned 0, [(ascii ''a.json'', scenario_with [596]),
                            (ascii ''a.arpa.json'', scenario_with (ascii ''AO1''))])"
    apply (simp add: main_def memory_io_def scenario_args_def parse_literals file_out_path_def
        default_outfile_for_file_def ascii_nonempty)
    apply (simp add: flat_with_suffix_def convert_scenario ascii_def)
    done
  show ?thesis using rejected accepted others beside by (simp add: stress_values)
qed

text \<open>
  C10, as it is stated, fails: \<^verbatim>\<open>NONE\<close> is accepted as no policy, and \<^verbatim>\<open>+01\<close> between
  blanks is accepted as the policy 1, and the run converts the file; neither is one of the
  four values.
\<close>

theorem default_stress_validation_counterexample:
  "ascii ''NONE'' \<notin> {ascii ''0'', ascii ''1'', ascii ''2'', ascii ''none''}
   \<and> parse_default_stress (ascii ''NONE'') = Inr None
   \<and> main memory_io (scenario_args (ascii ''NONE'')) [(ascii ''a.json'', scenario_with [596])]
       = Some (Returned 0, [(ascii ''a.json'', scenario_with (ascii ''AO''))])
   \<and> ascii '' +01 '' \<notin> {ascii ''0'', ascii ''1'', ascii ''2'', ascii ''none''}
   \<and> parse_default_stress (ascii '' +01 '') = Inr (Some 1)
   \<and> main memory_io (scenario_args (ascii '' +01 '')) [(ascii ''a.json'', scenario_with [596])]
       = Some (Returned 0, [(ascii ''a.json'', scenario_with (ascii ''AO1''))])"
proof -
  have runs:
    "main memory_io (scenario_args (ascii ''NONE'')) [(ascii ''a.json'', scenario_with [596])]
       = Some (Returned 0, [(ascii ''a.json'', scenario_with (ascii ''AO''))])"
    "main memory_io (scenario_args (ascii '' +01 '')) [(ascii ''a.json'', scenario_with [596])]
       = Some (Returned 0, [(ascii ''a.json'', scenario_with (ascii ''AO1''))])"
    by (simp_all add: main_def memory_io_def scenario_args_def parse_literals file_out_path_def
        convert_scenario ascii_nonempty)
  show ?thesis by (simp add: runs parse_literals) (simp add: ascii_def)
qed

end
